theory Spec2Isabelle
  imports Complex_Main
begin

section \<open>Numbers, strings and the random source\<close>

text \<open>
  A JavaScript number is modelled as a real number, and the values \<open>Infinity\<close> and
  \<open>-Infinity\<close> are outside the model. Arithmetic is exact but where its result is
  turned into a whole number or compared with a threshold of the flight plan: the
  products and quotients that give the number of samples, the time of a sample, its
  timestamp and the durations of the flight phases are rounded to the nearest double
  (\<open>to_double\<close>), as the program rounds them. Where the program can compute with \<open>undefined\<close> (a motor gain
  that was overwritten by \<open>undefined\<close>), the value is a \<open>jsnum\<close>: \<open>None\<close> stands for
  \<open>undefined\<close> in a field and for \<open>NaN\<close> in arithmetic, which propagates through
  every operation as it does in the program.
\<close>

type_synonym jsnum = "real option"

definition nan2 :: "(real \<Rightarrow> real \<Rightarrow> real) \<Rightarrow> jsnum \<Rightarrow> jsnum \<Rightarrow> jsnum" where
  "nan2 f a b = (case a of None \<Rightarrow> None | Some x \<Rightarrow> (case b of None \<Rightarrow> None | Some y \<Rightarrow> Some (f x y)))"

text \<open>\<open>Math.round\<close> rounds half up, \<open>Math.floor\<close> is the floor.\<close>

definition Math_round :: "real \<Rightarrow> real" where
  "Math_round x = of_int \<lfloor>x + 1 / 2\<rfloor>"

definition Math_floor :: "real \<Rightarrow> real" where
  "Math_floor x = of_int \<lfloor>x\<rfloor>"

text \<open>
  The rounding of a real number to the nearest IEEE 754 double, ties to the even
  significand: the arithmetic operators of JavaScript return the exact result rounded
  so, and a decimal literal denotes the double nearest to it. A double with the
  exponent \<open>e\<close> is a whole multiple of \<open>2 ^ (e - 52)\<close>; below \<open>2 ^ (- 1022)\<close> the doubles
  are the multiples of \<open>2 ^ (- 1074)\<close>. The overflow to \<open>Infinity\<close>, above
  \<open>2 ^ 1024\<close>, is outside the model.
\<close>

definition round_half_even :: "real \<Rightarrow> int" where
  "round_half_even y =
     (let f = \<lfloor>y\<rfloor>
      in if y - of_int f < 1 / 2 then f
         else if 1 / 2 < y - of_int f then f + 1
         else if even f then f else f + 1)"

definition to_double :: "real \<Rightarrow> real" where
  "to_double x =
     (if x = 0 then 0
      else let e = max \<lfloor>log 2 \<bar>x\<bar>\<rfloor> (- 1022);
               u = 2 powr (of_int e - 52)
           in of_int (round_half_even (x / u)) * u)"

text \<open>
  \<open>Number(x.toFixed(k))\<close>: the decimal with \<open>k\<close> fraction digits nearest to \<open>x\<close>, the
  larger in magnitude when two are equally near.
\<close>

definition toFixed_num :: "nat \<Rightarrow> real \<Rightarrow> real" where
  "toFixed_num k x = (if x < 0 then - 1 else 1) * of_int \<lfloor>\<bar>x\<bar> * 10 ^ k + 1 / 2\<rfloor> / 10 ^ k"

text \<open>\<open>clamp(value, min, max) = Math.min(Math.max(value, min), max)\<close>.\<close>

definition clamp :: "real \<Rightarrow> real \<Rightarrow> real \<Rightarrow> real" where
  "clamp v lo hi = min (max v lo) hi"

definition clamp_nan :: "jsnum \<Rightarrow> jsnum \<Rightarrow> jsnum \<Rightarrow> jsnum" where
  "clamp_nan v lo hi = nan2 min (nan2 max v lo) hi"

text \<open>The remainder operators of JavaScript take the sign of the dividend.\<close>

definition js_rem :: "int \<Rightarrow> int \<Rightarrow> int" where
  "js_rem a b = sgn a * (\<bar>a\<bar> mod \<bar>b\<bar>)"

definition js_fmod :: "real \<Rightarrow> real \<Rightarrow> real" where
  "js_fmod x y = x - y * (if x / y < 0 then of_int \<lceil>x / y\<rceil> else of_int \<lfloor>x / y\<rfloor>)"

text \<open>\<open>s.split(c)\<close> and indexing that yields \<open>undefined\<close> out of range.\<close>

fun split_on :: "char \<Rightarrow> string \<Rightarrow> string list" where
  "split_on c [] = [[]]"
| "split_on c (x # xs) =
     (if x = c then [] # split_on c xs
      else (case split_on c xs of [] \<Rightarrow> [[x]] | p # ps \<Rightarrow> (x # p) # ps))"

definition nth_opt :: "'a list \<Rightarrow> nat \<Rightarrow> 'a option" where
  "nth_opt xs i = (if i < length xs then Some (xs ! i) else None)"

text \<open>
  \<open>parseInt(s)\<close> with no radix: leading white space is dropped, then an optional sign,
  then an optional \<open>0x\<close> prefix that selects radix 16, then the longest run of digits
  of the radix. No digit at all gives \<open>NaN\<close>, here \<open>None\<close>; so does \<open>parseInt(undefined)\<close>.
\<close>

definition is_space :: "char \<Rightarrow> bool" where
  "is_space c = (of_char c \<in> {9, 10, 11, 12, 13, 32 :: nat})"

definition digit_of :: "char \<Rightarrow> nat option" where
  "digit_of c = (let n = (of_char c :: nat) in
     if 48 \<le> n \<and> n \<le> 57 then Some (n - 48)
     else if 97 \<le> n \<and> n \<le> 122 then Some (n - 87)
     else if 65 \<le> n \<and> n \<le> 90 then Some (n - 55)
     else None)"

fun digits_value :: "nat \<Rightarrow> string \<Rightarrow> nat option \<Rightarrow> nat option" where
  "digits_value R [] acc = acc"
| "digits_value R (c # cs) acc =
     (case digit_of c of
        None \<Rightarrow> acc
      | Some d \<Rightarrow>
          if d < R then digits_value R cs (Some (R * (case acc of None \<Rightarrow> 0 | Some a \<Rightarrow> a) + d))
          else acc)"

definition parseInt :: "string option \<Rightarrow> int option" where
  "parseInt arg =
     (case arg of
        None \<Rightarrow> None
      | Some s \<Rightarrow>
          (let S = dropWhile is_space s;
               neg = (take 1 S = ''-'');
               S1 = (if take 1 S = ''-'' \<or> take 1 S = ''+'' then drop 1 S else S);
               hex = (take 2 S1 = ''0x'' \<or> take 2 S1 = ''0X'');
               S2 = (if hex then drop 2 S1 else S1);
               R = (if hex then 16 else 10)
           in map_option (\<lambda>n. if neg then - int n else int n) (digits_value R S2 None)))"

text \<open>
  \<open>Math.random()\<close> is a global source of draws in \<open>[0, 1)\<close>. It is modelled as a
  sequence \<open>rnd\<close> of reals together with the index of the next draw, which every
  function that draws takes and returns. \<open>gaussianNoise\<close> draws twice. The draw \<open>0\<close>,
  at which the program computes \<open>Math.log(0) = -Infinity\<close>, is outside the model.
\<close>

type_synonym random_source = "nat \<Rightarrow> real"

definition Math_random :: "random_source \<Rightarrow> nat \<Rightarrow> real \<times> nat" where
  "Math_random rnd k = (rnd k, Suc k)"

definition gaussianNoise :: "random_source \<Rightarrow> nat \<Rightarrow> real \<Rightarrow> real \<Rightarrow> real \<times> nat" where
  "gaussianNoise rnd k mean stdDev =
     (let u1 = rnd k;
          u2 = rnd (Suc k);
          z0 = sqrt (- 2 * ln u1) * cos (2 * pi * u2)
      in (z0 * stdDev + mean, Suc (Suc k)))"

section \<open>The data model (types.ts)\<close>

record PhysicsConfig =
  gravity :: real
  friction_coefficient :: real
  terrain_type :: string
  terrain_roughness :: real

text \<open>
  A stored \<open>MotorParams\<close> object can hold \<open>undefined\<close> in a numeric field (see
  \<open>updateMotor\<close>), so the numeric fields are of type \<open>jsnum\<close>.
\<close>

record MotorParams =
  joint_id :: string
  torque_limit :: jsnum
  pid_p :: jsnum
  pid_i :: jsnum
  pid_d :: jsnum
  max_velocity :: jsnum

record imu_data =
  pitch :: real
  roll :: real
  yaw :: real
  accel_x :: real
  accel_y :: real
  accel_z :: real

record power_data =
  voltage :: jsnum
  current :: jsnum
  temperature :: real

record contact =
  leg_id :: string
  in_contact :: bool
  force :: real
  slip_detected :: bool

record TelemetryFrame =
  timestamp :: real
  joint_positions :: "(string \<times> jsnum) list"
  joint_velocities :: "(string \<times> jsnum) list"
  joint_torques :: "(string \<times> jsnum) list"
  imu :: imu_data
  power :: power_data
  contacts :: "contact list"

record SimulationMetrics =
  stability_score :: real
  efficiency_score :: jsnum
  gait_symmetry :: real
  max_pitch_deviation :: real
  max_roll_deviation :: real
  slip_events :: real
  total_energy_consumed :: jsnum
  avg_joint_temperature :: real

definition DEFAULT_PHYSICS :: PhysicsConfig where
  "DEFAULT_PHYSICS =
     \<lparr>gravity = 9.81, friction_coefficient = 0.5, terrain_type = ''concrete'',
      terrain_roughness = 0.3\<rparr>"

definition HEXAPOD_JOINTS :: "string list" where
  "HEXAPOD_JOINTS =
     [''leg_1_coxa'', ''leg_1_femur'', ''leg_1_tibia'',
      ''leg_2_coxa'', ''leg_2_femur'', ''leg_2_tibia'',
      ''leg_3_coxa'', ''leg_3_femur'', ''leg_3_tibia'',
      ''leg_4_coxa'', ''leg_4_femur'', ''leg_4_tibia'',
      ''leg_5_coxa'', ''leg_5_femur'', ''leg_5_tibia'',
      ''leg_6_coxa'', ''leg_6_femur'', ''leg_6_tibia'']"

text \<open>\<open>{ joint_id: jointId, ...DEFAULT_MOTOR_PARAMS }\<close>.\<close>

definition default_motor :: "string \<Rightarrow> MotorParams" where
  "default_motor jointId =
     \<lparr>joint_id = jointId, torque_limit = Some 5.0, pid_p = Some 1.0, pid_i = Some 0.1,
      pid_d = Some 0.05, max_velocity = Some 5.0\<rparr>"

record DronePhysicsConfig =
  air_density :: real
  wind_speed :: real
  wind_direction :: real
  airspace_condition :: string

record position_data =
  lat :: real
  lon :: real
  alt :: real

record velocity_data =
  vx :: real
  vy :: real
  vz :: real

record attitude_data =
  att_pitch :: real
  att_roll :: real
  att_yaw :: real

record battery_data =
  bat_voltage :: real
  bat_current :: real
  remaining :: real

record DroneTelemetryFrame =
  d_timestamp :: real
  position :: position_data
  velocity :: velocity_data
  attitude :: attitude_data
  rotor_speeds :: "real list"
  battery :: battery_data
  gps_quality :: real
  signal_strength :: real

record DroneSimulationMetrics =
  hover_accuracy :: real
  altitude_stability :: real
  battery_efficiency :: real
  wind_compensation_events :: real
  max_altitude_deviation :: real
  avg_rotor_rpm :: real
  gps_quality_avg :: real

record DroneFlightPath =
  waypoints_completed :: real
  total_distance :: real
  max_speed :: real
  avg_speed :: real

section \<open>The ground telemetry generator (telemetry.ts)\<close>

record terrain_params =
  slipProbability :: real
  frictionVariance :: real
  impactDamping :: real
  sinkage :: real

definition getTerrainParams :: "string \<Rightarrow> terrain_params" where
  "getTerrainParams terrainType =
     (if terrainType = ''sand'' then
        \<lparr>slipProbability = 0.15, frictionVariance = 0.2, impactDamping = 0.7, sinkage = 0.02\<rparr>
      else if terrainType = ''concrete'' then
        \<lparr>slipProbability = 0.02, frictionVariance = 0.05, impactDamping = 0.95, sinkage = 0\<rparr>
      else if terrainType = ''grass'' then
        \<lparr>slipProbability = 0.08, frictionVariance = 0.15, impactDamping = 0.8, sinkage = 0.01\<rparr>
      else if terrainType = ''gravel'' then
        \<lparr>slipProbability = 0.12, frictionVariance = 0.18, impactDamping = 0.75, sinkage = 0.015\<rparr>
      else
        \<lparr>slipProbability = 0.02, frictionVariance = 0.05, impactDamping = 0.95, sinkage = 0\<rparr>)"

text \<open>
  \<open>pidResponse\<close> returns the new position and the clamped new velocity. It has no
  parameter for an integral gain.
\<close>

definition pidResponse ::
  "jsnum \<Rightarrow> real \<Rightarrow> jsnum \<Rightarrow> jsnum \<Rightarrow> jsnum \<Rightarrow> real \<Rightarrow> jsnum \<times> jsnum" where
  "pidResponse current_pos target p_gain d_gain velocity_in dt =
     (let error = nan2 (-) (Some target) current_pos;
          pTerm = nan2 (*) p_gain error;
          dTerm = nan2 (*) (map_option uminus d_gain) velocity_in;
          acceleration = nan2 (+) pTerm dTerm;
          newVelocity = nan2 (+) velocity_in (nan2 (*) acceleration (Some dt));
          newPosition = nan2 (+) current_pos (nan2 (*) newVelocity (Some dt))
      in (newPosition, clamp_nan newVelocity (Some (- 5)) (Some 5)))"

text \<open>
  \<open>motors.get(jointId) || { pid_p: 1.0, pid_d: 0.05, torque_limit: 5.0 }\<close>: the three
  fields that both alternatives have, and the only ones the generator reads.
\<close>

record motor_gains =
  gain_p :: jsnum
  gain_d :: jsnum
  gain_torque_limit :: jsnum

definition motor_for :: "(string \<rightharpoonup> MotorParams) \<Rightarrow> string \<Rightarrow> motor_gains" where
  "motor_for motors jointId =
     (case motors jointId of
        Some m \<Rightarrow> \<lparr>gain_p = pid_p m, gain_d = pid_d m, gain_torque_limit = torque_limit m\<rparr>
      | None \<Rightarrow> \<lparr>gain_p = Some 1.0, gain_d = Some 0.05, gain_torque_limit = Some 5.0\<rparr>)"

record joint_state =
  joint_position :: jsnum
  joint_velocity :: jsnum
  joint_torque :: jsnum

text \<open>\<open>gaitAmplitude[jointType] || 0.5\<close>.\<close>

definition gaitAmplitude :: "string option \<Rightarrow> real" where
  "gaitAmplitude jointType =
     (if jointType = Some ''coxa'' then 0.3
      else if jointType = Some ''femur'' then 0.6
      else if jointType = Some ''tibia'' then 0.8
      else 0.5)"

definition gaitFrequency :: real where
  "gaitFrequency = 2"

text \<open>
  The state of the loop over the joints within one frame: \<open>jointState\<close> (every key
  that is read was written by the initialisation loop), the three records being
  filled, in insertion order, and the index of the next random draw.
\<close>

record joint_loop =
  jointState :: "string \<Rightarrow> joint_state"
  jointPositions :: "(string \<times> jsnum) list"
  jointVelocities :: "(string \<times> jsnum) list"
  jointTorques :: "(string \<times> jsnum) list"
  joint_rng :: nat

definition joint_step ::
  "random_source \<Rightarrow> (string \<rightharpoonup> MotorParams) \<Rightarrow> terrain_params \<Rightarrow> real \<Rightarrow> real \<Rightarrow> string
     \<Rightarrow> joint_loop \<Rightarrow> joint_loop" where
  "joint_step rnd motors terrainParams dt gaitPhase jointId s =
     (let motor = motor_for motors jointId;
          state = jointState s jointId;
          legNum = parseInt (nth_opt (split_on CHR ''_'' jointId) 1);
          jointType = nth_opt (split_on CHR ''_'' jointId) 2;
          phaseOffset = (if (case legNum of None \<Rightarrow> False | Some n \<Rightarrow> js_rem n 2 = 0) then pi else 0);
          amplitude = gaitAmplitude jointType;
          target = amplitude * sin (gaitPhase + phaseOffset);
          pidResult = pidResponse (joint_position state) target (gain_p motor) (gain_d motor)
                        (joint_velocity state) dt;
          noiseScale = 0.01 * (1 + frictionVariance terrainParams);
          (n1, k1) = gaussianNoise rnd (joint_rng s) 0 noiseScale;
          new_position = nan2 (+) (fst pidResult) (Some n1);
          (n2, k2) = gaussianNoise rnd k1 0 (noiseScale * 2);
          new_velocity = nan2 (+) (snd pidResult) (Some n2);
          (n3, k3) = gaussianNoise rnd k2 0 0.1;
          new_torque =
            clamp_nan
              (nan2 (+) (nan2 (*) (gain_p motor) (nan2 (-) (Some target) new_position)) (Some n3))
              (map_option uminus (gain_torque_limit motor))
              (gain_torque_limit motor)
      in \<lparr>jointState = (jointState s)
             (jointId := \<lparr>joint_position = new_position, joint_velocity = new_velocity,
                          joint_torque = new_torque\<rparr>),
          jointPositions = jointPositions s @ [(jointId, new_position)],
          jointVelocities = jointVelocities s @ [(jointId, new_velocity)],
          jointTorques = jointTorques s @ [(jointId, new_torque)],
          joint_rng = k3\<rparr>)"

text \<open>The body of the loop over the legs \<open>1, ..., 6\<close> that builds \<open>contacts\<close>.\<close>

definition leg_name :: "nat \<Rightarrow> string" where
  "leg_name leg = ''leg_'' @ [char_of (48 + leg)]"

definition contact_step ::
  "random_source \<Rightarrow> terrain_params \<Rightarrow> PhysicsConfig \<Rightarrow> real \<Rightarrow> nat
     \<Rightarrow> contact list \<times> nat \<Rightarrow> contact list \<times> nat" where
  "contact_step rnd terrainParams physics gaitPhase leg st =
     (let legPhase = js_fmod (gaitPhase + (if leg mod 2 = 0 then pi else 0)) (2 * pi);
          inContact = (legPhase < pi);
          slipChance = slipProbability terrainParams * (1 - friction_coefficient physics);
          (slipDetected, k1) =
            (if inContact
             then (let (u, k') = Math_random rnd (snd st) in (u < slipChance * 0.1, k'))
             else (False, snd st));
          (contact_force, k2) =
            (if inContact
             then (let (n, k') = gaussianNoise rnd k1 0 2 in (8 + n, k'))
             else (0, k1))
      in (fst st @
          [\<lparr>leg_id = leg_name leg, in_contact = inContact, force = contact_force,
            slip_detected = slipDetected\<rparr>],
          k2))"

text \<open>The state of the loop over the samples.\<close>

record generator_state =
  gen_jointState :: "string \<Rightarrow> joint_state"
  gen_pitch :: real
  gen_roll :: real
  gen_yaw :: real
  gen_temperature :: real
  gen_frames :: "TelemetryFrame list"
  gen_rng :: nat

definition frame_step ::
  "random_source \<Rightarrow> PhysicsConfig \<Rightarrow> (string \<rightharpoonup> MotorParams) \<Rightarrow> real \<Rightarrow> terrain_params \<Rightarrow> nat
     \<Rightarrow> generator_state \<Rightarrow> generator_state" where
  "frame_step rnd physics motors dt terrainParams i s =
     (let t = to_double (real i * dt);
          gaitPhase = js_fmod (t * gaitFrequency * 2 * pi) (2 * pi);
          joints = fold (joint_step rnd motors terrainParams dt gaitPhase) HEXAPOD_JOINTS
                     \<lparr>jointState = gen_jointState s, jointPositions = [], jointVelocities = [],
                      jointTorques = [], joint_rng = gen_rng s\<rparr>;
          gravityEffect = gravity physics / 9.81;
          pitchOscillation = 2 * sin (gaitPhase * 2) * gravityEffect;
          rollOscillation = 1.5 * sin (gaitPhase * 2 + pi / 4) * gravityEffect;
          (n1, k1) = gaussianNoise rnd (joint_rng joints) 0 0.3;
          new_pitch = clamp (gen_pitch s * 0.95 + pitchOscillation * 0.05 + n1) (- 30) 30;
          (n2, k2) = gaussianNoise rnd k1 0 0.2;
          new_roll = clamp (gen_roll s * 0.95 + rollOscillation * 0.05 + n2) (- 20) 20;
          (n3, k3) = gaussianNoise rnd k2 0 0.1;
          new_yaw = gen_yaw s + n3;
          (n4, k4) = gaussianNoise rnd k3 0 0.01;
          new_temperature = min 55 (gen_temperature s + 0.001 + \<bar>n4\<bar>);
          avgTorque =
            nan2 (/)
              (foldl (\<lambda>a b. nan2 (+) (map_option abs a) (map_option abs b)) (Some 0)
                 (map snd (jointTorques joints)))
              (Some 18);
          (n5, k5) = gaussianNoise rnd k4 0 0.2;
          new_current = nan2 (+) (nan2 (+) (Some 2) (nan2 (*) avgTorque (Some 0.5))) (Some n5);
          (new_contacts, k6) =
            fold (contact_step rnd terrainParams physics gaitPhase) [1 ..< 7] ([], k5);
          (ax, k7) = gaussianNoise rnd k6 0 0.5;
          (ay, k8) = gaussianNoise rnd k7 0 0.5;
          (az, k9) = gaussianNoise rnd k8 0 0.3;
          (nv, k10) = gaussianNoise rnd k9 0 0.05;
          frame =
            \<lparr>timestamp = Math_round (to_double (t * 1000)),
             joint_positions = jointPositions joints,
             joint_velocities = jointVelocities joints,
             joint_torques = jointTorques joints,
             imu = \<lparr>pitch = toFixed_num 2 new_pitch, roll = toFixed_num 2 new_roll,
                    yaw = toFixed_num 2 new_yaw, accel_x = toFixed_num 3 ax,
                    accel_y = toFixed_num 3 ay,
                    accel_z = toFixed_num 3 (gravity physics + az)\<rparr>,
             power = \<lparr>voltage =
                        map_option (toFixed_num 2)
                          (nan2 (+) (nan2 (-) (Some 24) (nan2 (*) new_current (Some 0.1))) (Some nv)),
                      current = map_option (toFixed_num 2) new_current,
                      temperature = toFixed_num 1 new_temperature\<rparr>,
             contacts = new_contacts\<rparr>
      in \<lparr>gen_jointState = jointState joints, gen_pitch = new_pitch, gen_roll = new_roll,
          gen_yaw = new_yaw, gen_temperature = new_temperature,
          gen_frames = gen_frames s @ [frame], gen_rng = k10\<rparr>)"

text \<open>The initialisation loop of \<open>jointState\<close>.\<close>

definition init_joint ::
  "random_source \<Rightarrow> string \<Rightarrow> (string \<Rightarrow> joint_state) \<times> nat \<Rightarrow> (string \<Rightarrow> joint_state) \<times> nat" where
  "init_joint rnd jointId st =
     (let (n, k') = gaussianNoise rnd (snd st) 0 0.1
      in ((fst st)(jointId := \<lparr>joint_position = Some n, joint_velocity = Some 0,
                               joint_torque = Some 0\<rparr>),
          k'))"

text \<open>
  \<open>generateTelemetryStream\<close>: the frames and the index of the next random draw. The
  loop \<open>for (let i = 0; i < totalSamples; i++)\<close> runs over \<open>i = 0, ..., totalSamples - 1\<close>,
  and not at all when \<open>totalSamples\<close> is not positive.
\<close>

definition generateTelemetryStream ::
  "random_source \<Rightarrow> nat \<Rightarrow> real \<Rightarrow> PhysicsConfig \<Rightarrow> (string \<rightharpoonup> MotorParams) \<Rightarrow> real
     \<Rightarrow> TelemetryFrame list \<times> nat" where
  "generateTelemetryStream rnd k durationSeconds physics motors sampleRateHz =
     (let totalSamples = \<lfloor>to_double (durationSeconds * sampleRateHz)\<rfloor>;
          dt = to_double (1 / sampleRateHz);
          terrainParams = getTerrainParams (terrain_type physics);
          (js0, k0) =
            fold (init_joint rnd) HEXAPOD_JOINTS
              (\<lambda>_. \<lparr>joint_position = None, joint_velocity = None, joint_torque = None\<rparr>, k);
          final =
            fold (frame_step rnd physics motors dt terrainParams) [0 ..< nat totalSamples]
              \<lparr>gen_jointState = js0, gen_pitch = 0, gen_roll = 0, gen_yaw = 0,
               gen_temperature = 35, gen_frames = [], gen_rng = k0\<rparr>
      in (gen_frames final, gen_rng final))"

section \<open>The drone telemetry generator (telemetry.ts)\<close>

record airspace_params =
  turbulenceIntensity :: real
  gustProbability :: real
  positionVariance :: real

text \<open>
  \<open>params[condition] || params.calm\<close> on an object literal with the four keys. A name
  that is not a key of the literal is looked up in \<open>Object.prototype\<close>: for the names
  below the lookup finds an inherited property, which is truthy, so the fallback to
  \<open>params.calm\<close> is not taken and the three coefficients read from the result are
  \<open>undefined\<close>. That result is \<open>None\<close> here. Every other name falls back to \<open>calm\<close>.
\<close>

definition object_prototype_names :: "string list" where
  "object_prototype_names =
     [''constructor'', ''__defineGetter__'', ''__defineSetter__'', ''hasOwnProperty'',
      ''__lookupGetter__'', ''__lookupSetter__'', ''isPrototypeOf'', ''propertyIsEnumerable'',
      ''toString'', ''valueOf'', ''__proto__'', ''toLocaleString'']"

definition getAirspaceParams :: "string \<Rightarrow> airspace_params option" where
  "getAirspaceParams condition =
     (if condition = ''calm'' then
        Some \<lparr>turbulenceIntensity = 0.1, gustProbability = 0.02, positionVariance = 0.05\<rparr>
      else if condition = ''light_wind'' then
        Some \<lparr>turbulenceIntensity = 0.25, gustProbability = 0.08, positionVariance = 0.15\<rparr>
      else if condition = ''gusty'' then
        Some \<lparr>turbulenceIntensity = 0.5, gustProbability = 0.2, positionVariance = 0.35\<rparr>
      else if condition = ''turbulent'' then
        Some \<lparr>turbulenceIntensity = 0.8, gustProbability = 0.4, positionVariance = 0.6\<rparr>
      else if condition \<in> set object_prototype_names then None
      else
        Some \<lparr>turbulenceIntensity = 0.1, gustProbability = 0.02, positionVariance = 0.05\<rparr>)"

datatype FlightPhase = takeoff | hover | waypoint | land

definition hoverRPM :: real where "hoverRPM = 4500"
definition maxRPM :: real where "maxRPM = 8000"
definition minRPM :: real where "minRPM = 1000"
definition startLat :: real where "startLat = 37.7749"
definition startLon :: real where "startLon = - 122.4194"

definition waypoints :: "(real \<times> real) list" where
  "waypoints =
     [(startLat + 0.0001, startLon + 0.0001),
      (startLat + 0.0002, startLon),
      (startLat + 0.0001, startLon - 0.0001),
      (startLat, startLon)]"

text \<open>The phase of the flight plan at time \<open>t\<close>.\<close>

definition flight_phase :: "real \<Rightarrow> real \<Rightarrow> FlightPhase" where
  "flight_phase durationSeconds t =
     (let takeoffDuration = to_double (durationSeconds * to_double 0.15);
          hoverDuration = to_double (durationSeconds * to_double 0.25);
          waypointDuration = to_double (durationSeconds * to_double 0.4)
      in if t < takeoffDuration then takeoff
         else if t < to_double (takeoffDuration + hoverDuration) then hover
         else if t < to_double (to_double (takeoffDuration + hoverDuration) + waypointDuration)
         then waypoint
         else land)"

record drone_state =
  st_lat :: real
  st_lon :: real
  st_alt :: real
  st_vx :: real
  st_vy :: real
  st_vz :: real
  st_pitch :: real
  st_roll :: real
  st_yaw :: real
  batteryRemaining :: real
  batteryVoltage :: real
  rotorSpeeds :: "real list"
  currentWaypoint :: nat
  drone_frames :: "DroneTelemetryFrame list"
  drone_rng :: nat

text \<open>
  The loop \<open>for (let r = 0; r < 4; r++) rotorSpeeds[r] = ...\<close> that every phase has:
  each pass draws one Gaussian noise of deviation \<open>stdDev\<close> and stores \<open>f noise\<close>.
\<close>

definition set_rotors ::
  "random_source \<Rightarrow> real \<Rightarrow> (real \<Rightarrow> real) \<Rightarrow> real list \<times> nat \<Rightarrow> real list \<times> nat" where
  "set_rotors rnd stdDev f st =
     fold (\<lambda>r s. (let (n, k') = gaussianNoise rnd (snd s) 0 stdDev in ((fst s)[r := f n], k')))
       [0 ..< 4] st"

text \<open>The \<open>switch (phase)\<close> of one sample.\<close>

definition phase_step ::
  "random_source \<Rightarrow> real \<Rightarrow> real \<Rightarrow> real \<Rightarrow> drone_state \<Rightarrow> drone_state" where
  "phase_step rnd durationSeconds dt t s =
     (let takeoffDuration = to_double (durationSeconds * to_double 0.15);
          landDuration = to_double (durationSeconds * to_double 0.2)
      in case flight_phase durationSeconds t of
        takeoff \<Rightarrow>
          (let takeoffProgress = t / takeoffDuration;
               targetAlt = 10 * sin (takeoffProgress * pi / 2);
               new_vz = (targetAlt - st_alt s) * 2;
               new_alt = st_alt s + new_vz * dt;
               (rotors, k') =
                 set_rotors rnd 50
                   (\<lambda>n. clamp (minRPM + (hoverRPM - minRPM) * takeoffProgress + n) minRPM maxRPM)
                   (rotorSpeeds s, drone_rng s)
           in s\<lparr>st_vz := new_vz, st_alt := new_alt, rotorSpeeds := rotors, drone_rng := k'\<rparr>)
      | hover \<Rightarrow>
          (let hoverTarget = 10;
               (n0, k0) = gaussianNoise rnd (drone_rng s) 0 0.1;
               new_vz = (hoverTarget - st_alt s) * 0.5 + n0;
               new_alt = clamp (st_alt s + new_vz * dt) 0 50;
               (rotors, k') = set_rotors rnd 100 (\<lambda>n. hoverRPM + n) (rotorSpeeds s, k0)
           in s\<lparr>st_vz := new_vz, st_alt := new_alt, rotorSpeeds := rotors, drone_rng := k'\<rparr>)
      | waypoint \<Rightarrow>
          (let wp = waypoints ! currentWaypoint s;
               latError = fst wp - st_lat s;
               lonError = snd wp - st_lon s;
               dist = sqrt (latError * latError + lonError * lonError);
               new_waypoint =
                 (if dist < 0.00002 \<and> currentWaypoint s < length waypoints - 1
                  then currentWaypoint s + 1 else currentWaypoint s);
               new_vx = latError * 50000;
               new_vy = lonError * 50000;
               new_lat = st_lat s + new_vx * dt * 0.00001;
               new_lon = st_lon s + new_vy * dt * 0.00001;
               new_vz = (10 - st_alt s) * 0.3;
               new_alt = clamp (st_alt s + new_vz * dt) 0 50;
               movementBoost = \<bar>new_vx\<bar> + \<bar>new_vy\<bar>;
               (rotors, k') =
                 set_rotors rnd 150
                   (\<lambda>n. clamp (hoverRPM + movementBoost * 10 + n) minRPM maxRPM)
                   (rotorSpeeds s, drone_rng s)
           in s\<lparr>currentWaypoint := new_waypoint, st_vx := new_vx, st_vy := new_vy,
                st_lat := new_lat, st_lon := new_lon, st_vz := new_vz, st_alt := new_alt,
                rotorSpeeds := rotors, drone_rng := k'\<rparr>)
      | land \<Rightarrow>
          (let landProgress = (t - (durationSeconds - landDuration)) / landDuration;
               descentRate = - 2 * (1 - landProgress * 0.5);
               new_vz = descentRate;
               new_alt = clamp (st_alt s + new_vz * dt) 0 50;
               (rotors, k') =
                 set_rotors rnd 50
                   (\<lambda>n. clamp (hoverRPM * (1 - landProgress * 0.6) + n)
                          (if new_alt > 0.5 then minRPM else 0) maxRPM)
                   (rotorSpeeds s, drone_rng s)
           in s\<lparr>st_vz := new_vz, st_alt := new_alt, rotorSpeeds := rotors, drone_rng := k'\<rparr>))"

text \<open>The rest of the body of the loop over the samples, after the \<open>switch\<close>.\<close>

definition drone_step ::
  "random_source \<Rightarrow> real \<Rightarrow> DronePhysicsConfig \<Rightarrow> real \<Rightarrow> airspace_params \<Rightarrow> nat
     \<Rightarrow> drone_state \<Rightarrow> drone_state" where
  "drone_step rnd durationSeconds physics dt airspaceParams i s0 =
     (let t = to_double (real i * dt);
          s = phase_step rnd durationSeconds dt t s0;
          windEffect = wind_speed physics * turbulenceIntensity airspaceParams;
          windAngleRad = wind_direction physics * pi / 180;
          new_lat = st_lat s + cos windAngleRad * windEffect * 0.000001 * dt;
          new_lon = st_lon s + sin windAngleRad * windEffect * 0.000001 * dt;
          (gust, k1) = Math_random rnd (drone_rng s);
          gustActive = (gust < gustProbability airspaceParams * dt);
          (roll1, pitch1, k2) =
            (if gustActive then
               (let (g1, j1) = gaussianNoise rnd k1 0 5;
                    (g2, j2) = gaussianNoise rnd j1 0 5
                in (st_roll s + g1 * turbulenceIntensity airspaceParams,
                    st_pitch s + g2 * turbulenceIntensity airspaceParams, j2))
             else (st_roll s, st_pitch s, k1));
          (n3, k3) = gaussianNoise rnd k2 0 0.5;
          pitch2 = pitch1 * 0.95 + n3;
          (n4, k4) = gaussianNoise rnd k3 0 0.5;
          roll2 = roll1 * 0.95 + n4;
          (n5, k5) = gaussianNoise rnd k4 0 0.2;
          new_yaw = st_yaw s + n5;
          new_pitch = clamp pitch2 (- 30) 30;
          new_roll = clamp roll2 (- 30) 30;
          powerDrain = 0.001 + \<bar>st_vz s\<bar> * 0.002 + (\<bar>st_vx s\<bar> + \<bar>st_vy s\<bar>) * 0.0001;
          new_remaining = clamp (batteryRemaining s - powerDrain) 0 100;
          new_voltage = 14.0 + (new_remaining / 100) * 2.8;
          avgRPM = foldl (+) 0 (rotorSpeeds s) / 4;
          new_current = 5 + (avgRPM / hoverRPM) * 15;
          (n6, k6) = gaussianNoise rnd k5 0 3;
          gps0 = 95 + n6;
          gps1 = (if st_alt s < 2 then gps0 - 10 else gps0);
          gps2 = (if airspace_condition physics = ''turbulent'' then gps1 - 5 else gps1);
          gpsQuality = clamp gps2 0 100;
          (n7, k7) = gaussianNoise rnd k6 0 3;
          signalStrength = - 45 + n7;
          frame =
            \<lparr>d_timestamp = Math_round (to_double (t * 1000)),
             position = \<lparr>lat = toFixed_num 6 new_lat, lon = toFixed_num 6 new_lon,
                         alt = toFixed_num 2 (st_alt s)\<rparr>,
             velocity = \<lparr>vx = toFixed_num 2 (st_vx s), vy = toFixed_num 2 (st_vy s),
                         vz = toFixed_num 2 (st_vz s)\<rparr>,
             attitude = \<lparr>att_pitch = toFixed_num 1 new_pitch, att_roll = toFixed_num 1 new_roll,
                         att_yaw = toFixed_num 1 new_yaw\<rparr>,
             rotor_speeds = map Math_round (rotorSpeeds s),
             battery = \<lparr>bat_voltage = toFixed_num 2 new_voltage,
                        bat_current = toFixed_num 1 new_current,
                        remaining = toFixed_num 1 new_remaining\<rparr>,
             gps_quality = Math_round gpsQuality,
             signal_strength = Math_round signalStrength\<rparr>
      in s\<lparr>st_lat := new_lat, st_lon := new_lon, st_roll := new_roll, st_pitch := new_pitch,
           st_yaw := new_yaw, batteryRemaining := new_remaining, batteryVoltage := new_voltage,
           drone_frames := drone_frames s @ [frame], drone_rng := k7\<rparr>)"

text \<open>
  With the coefficients \<open>undefined\<close> the wind drift, and with it the position, is
  \<open>NaN\<close> from the first frame on, and so are the rotor speeds of the waypoint phase,
  which are computed from the position. A frame is a record of real numbers, so
  these frames are not represented: the result is \<open>None\<close> then.
\<close>

definition generateDroneTelemetryStream ::
  "random_source \<Rightarrow> nat \<Rightarrow> real \<Rightarrow> DronePhysicsConfig \<Rightarrow> real
     \<Rightarrow> (DroneTelemetryFrame list \<times> nat) option" where
  "generateDroneTelemetryStream rnd k durationSeconds physics sampleRateHz =
     (let totalSamples = \<lfloor>to_double (durationSeconds * sampleRateHz)\<rfloor>;
          dt = to_double (1 / sampleRateHz)
      in case getAirspaceParams (airspace_condition physics) of
           None \<Rightarrow> None
         | Some airspaceParams \<Rightarrow>
             (let final =
                    fold (drone_step rnd durationSeconds physics dt airspaceParams)
                      [0 ..< nat totalSamples]
                      \<lparr>st_lat = startLat, st_lon = startLon, st_alt = 0, st_vx = 0, st_vy = 0,
                       st_vz = 0, st_pitch = 0, st_roll = 0, st_yaw = 0, batteryRemaining = 100,
                       batteryVoltage = 16.8, rotorSpeeds = [0, 0, 0, 0], currentWaypoint = 0,
                       drone_frames = [], drone_rng = k\<rparr>
              in Some (drone_frames final, drone_rng final)))"

section \<open>Metrics analyzers (telemetry.ts)\<close>

record telemetry_sums =
  maxPitch :: real
  maxRoll :: real
  slipEvents :: real
  totalEnergy :: jsnum
  tempSum :: real
  leftLegPhaseSum :: real
  rightLegPhaseSum :: real

text \<open>The body of the inner loop of \<open>analyzeTelemetry\<close>, over the contacts of a frame.\<close>

definition analyze_contact :: "contact \<Rightarrow> telemetry_sums \<Rightarrow> telemetry_sums" where
  "analyze_contact c a =
     (let a1 = (if slip_detected c then a\<lparr>slipEvents := slipEvents a + 1\<rparr> else a);
          legNum = parseInt (nth_opt (split_on CHR ''_'' (leg_id c)) 1);
          inc = (if in_contact c then 1 else 0)
      in if (case legNum of None \<Rightarrow> False | Some n \<Rightarrow> js_rem n 2 = 1)
         then a1\<lparr>leftLegPhaseSum := leftLegPhaseSum a1 + inc\<rparr>
         else a1\<lparr>rightLegPhaseSum := rightLegPhaseSum a1 + inc\<rparr>)"

text \<open>The body of the outer loop, over the frames.\<close>

definition analyze_frame :: "TelemetryFrame \<Rightarrow> telemetry_sums \<Rightarrow> telemetry_sums" where
  "analyze_frame f a =
     (let a1 = a\<lparr>maxPitch := max (maxPitch a) \<bar>pitch (imu f)\<bar>,
                  maxRoll := max (maxRoll a) \<bar>roll (imu f)\<bar>\<rparr>;
          a2 = fold analyze_contact (contacts f) a1
      in a2\<lparr>totalEnergy :=
               nan2 (+) (totalEnergy a2)
                 (nan2 (*) (nan2 (*) (voltage (power f)) (current (power f))) (Some 0.01)),
             tempSum := tempSum a2 + temperature (power f)\<rparr>)"

definition analyzeTelemetry :: "TelemetryFrame list \<Rightarrow> SimulationMetrics" where
  "analyzeTelemetry frames =
     (if length frames = 0 then
        \<lparr>stability_score = 0, efficiency_score = Some 0, gait_symmetry = 0,
         max_pitch_deviation = 0, max_roll_deviation = 0, slip_events = 0,
         total_energy_consumed = Some 0, avg_joint_temperature = 0\<rparr>
      else
        (let a = fold analyze_frame frames
                   \<lparr>maxPitch = 0, maxRoll = 0, slipEvents = 0, totalEnergy = Some 0,
                    tempSum = 0, leftLegPhaseSum = 0, rightLegPhaseSum = 0\<rparr>;
             n = real (length frames);
             stabilityPenalty =
               (maxPitch a / 30) * 30 + (maxRoll a / 20) * 20 + (slipEvents a / n) * 50;
             efficiencyRaw = nan2 (-) (Some 100) (nan2 (*) (nan2 (/) (totalEnergy a) (Some n)) (Some 2));
             symmetryDiff = \<bar>leftLegPhaseSum a - rightLegPhaseSum a\<bar> / n
         in \<lparr>stability_score = max 0 (Math_round (100 - stabilityPenalty)),
             efficiency_score =
               nan2 max (Some 0) (nan2 min (Some 100) (map_option Math_round efficiencyRaw)),
             gait_symmetry = toFixed_num 2 (max 0 (1 - symmetryDiff * 0.5)),
             max_pitch_deviation = toFixed_num 1 (maxPitch a),
             max_roll_deviation = toFixed_num 1 (maxRoll a),
             slip_events = slipEvents a,
             total_energy_consumed = map_option (toFixed_num 2) (totalEnergy a),
             avg_joint_temperature = toFixed_num 1 (tempSum a / n)\<rparr>))"

record drone_sums =
  withinThreshold :: real
  maxAltDeviation :: real
  totalRPM :: real
  totalGPSQuality :: real
  windEvents :: real
  prevRoll :: real
  prevPitch :: real

definition analyze_drone_frame :: "DroneTelemetryFrame \<Rightarrow> drone_sums \<Rightarrow> drone_sums" where
  "analyze_drone_frame f a =
     (let hoverAlt = 10;
          altDeviation = \<bar>alt (position f) - hoverAlt\<bar>;
          rollChange = \<bar>att_roll (attitude f) - prevRoll a\<bar>;
          pitchChange = \<bar>att_pitch (attitude f) - prevPitch a\<bar>
      in \<lparr>withinThreshold = (if altDeviation < 0.5 then withinThreshold a + 1 else withinThreshold a),
          maxAltDeviation = max (maxAltDeviation a) altDeviation,
          totalRPM = totalRPM a + fold (\<lambda>b acc. acc + b) (rotor_speeds f) 0 / 4,
          totalGPSQuality = totalGPSQuality a + gps_quality f,
          windEvents = (if rollChange > 3 \<or> pitchChange > 3 then windEvents a + 1 else windEvents a),
          prevRoll = att_roll (attitude f),
          prevPitch = att_pitch (attitude f)\<rparr>)"

definition analyzeDroneTelemetry :: "DroneTelemetryFrame list \<Rightarrow> DroneSimulationMetrics" where
  "analyzeDroneTelemetry frames =
     (if length frames = 0 then
        \<lparr>hover_accuracy = 0, altitude_stability = 0, battery_efficiency = 0,
         wind_compensation_events = 0, max_altitude_deviation = 0, avg_rotor_rpm = 0,
         gps_quality_avg = 0\<rparr>
      else
        (let a = fold analyze_drone_frame frames
                   \<lparr>withinThreshold = 0, maxAltDeviation = 0, totalRPM = 0,
                    totalGPSQuality = 0, windEvents = 0, prevRoll = 0, prevPitch = 0\<rparr>;
             n = real (length frames);
             startBattery = remaining (battery (frames ! 0));
             endBattery = remaining (battery (frames ! (length frames - 1)));
             actualDrain = startBattery - endBattery;
             theoreticalDrain = (n / 50) * 0.1
         in \<lparr>hover_accuracy = Math_round ((withinThreshold a / n) * 100),
             altitude_stability = Math_round (max 0 (100 - maxAltDeviation a * 10)),
             battery_efficiency =
               Math_round (min 100 ((theoreticalDrain / max actualDrain 0.1) * 100)),
             wind_compensation_events = min (windEvents a) 10,
             max_altitude_deviation = toFixed_num 2 (maxAltDeviation a),
             avg_rotor_rpm = Math_round (totalRPM a / n),
             gps_quality_avg = Math_round (totalGPSQuality a / n)\<rparr>))"

record path_sums =
  totalDistance :: real
  maxSpeed :: real
  totalSpeed :: real

text \<open>The body of the loop \<open>for (let i = 1; i < frames.length; i++)\<close>.\<close>

definition flight_path_step :: "DroneTelemetryFrame list \<Rightarrow> nat \<Rightarrow> path_sums \<Rightarrow> path_sums" where
  "flight_path_step frames i a =
     (let prev = frames ! (i - 1);
          curr = frames ! i;
          dx = (lat (position curr) - lat (position prev)) * 111000;
          dy = (lon (position curr) - lon (position prev)) * 111000
                 * cos (lat (position curr) * pi / 180);
          dz = alt (position curr) - alt (position prev);
          dist = sqrt (dx * dx + dy * dy + dz * dz);
          speed = sqrt (vx (velocity curr) * vx (velocity curr)
                        + vy (velocity curr) * vy (velocity curr)
                        + vz (velocity curr) * vz (velocity curr))
      in \<lparr>totalDistance = totalDistance a + dist,
          maxSpeed = max (maxSpeed a) speed,
          totalSpeed = totalSpeed a + speed\<rparr>)"

definition analyzeDroneFlightPath :: "DroneTelemetryFrame list \<Rightarrow> DroneFlightPath" where
  "analyzeDroneFlightPath frames =
     (if length frames < 2 then
        \<lparr>waypoints_completed = 0, total_distance = 0, max_speed = 0, avg_speed = 0\<rparr>
      else
        (let a = fold (flight_path_step frames) [1 ..< length frames]
                   \<lparr>totalDistance = 0, maxSpeed = 0, totalSpeed = 0\<rparr>;
             w1 = (if totalDistance a > 10 then 1 else 0);
             w2 = (if totalDistance a > 30 then w1 + 1 else w1);
             w3 = (if totalDistance a > 60 then w2 + 1 else w2);
             w4 = (if totalDistance a > 100 then w3 + 1 else w3)
         in \<lparr>waypoints_completed = w4,
             total_distance = toFixed_num 1 (totalDistance a),
             max_speed = toFixed_num 1 (maxSpeed a),
             avg_speed = toFixed_num 1 (totalSpeed a / (real (length frames) - 1))\<rparr>))"

section \<open>Failure injection (failures.ts)\<close>

datatype severity = Info | Warning | Error | Critical

text \<open>
  The free-form \<open>data\<close> of an event holds numbers, strings and string arrays, and a
  key can hold \<open>undefined\<close>. The type of an event is a string: the injected failures
  store their own type names there (\<open>type: injectedFailure.type as ...\<close>).
\<close>

datatype jsval = JUndefined | JNum real | JStr string | JStrings "string list"

record SimulationEvent =
  ev_timestamp :: real
  ev_type :: string
  severity :: severity
  message :: string
  data :: "(string \<times> jsval) list option"

type_synonym DroneSimulationEvent = SimulationEvent

text \<open>
  The text of a number in a message is produced by the runtime (\<open>x.toFixed(k)\<close> and the
  conversion of a number in a template literal, also in base 36); they are parameters
  of the model.
\<close>

record number_text =
  toFixed :: "real \<Rightarrow> nat \<Rightarrow> string"
  toString :: "real \<Rightarrow> string"
  toString36 :: "real \<Rightarrow> string"

definition degree_sign :: string where
  "degree_sign = [CHR 0xB0]"

datatype FailureType =
  motor_overheat | slip_event | gait_mismatch | rollover | power_fluctuation
  | sensor_noise | joint_limit_exceeded

fun FailureType_name :: "FailureType \<Rightarrow> string" where
  "FailureType_name motor_overheat = ''motor_overheat''"
| "FailureType_name slip_event = ''slip_event''"
| "FailureType_name gait_mismatch = ''gait_mismatch''"
| "FailureType_name rollover = ''rollover''"
| "FailureType_name power_fluctuation = ''power_fluctuation''"
| "FailureType_name sensor_noise = ''sensor_noise''"
| "FailureType_name joint_limit_exceeded = ''joint_limit_exceeded''"

record 't FailureScenario =
  fs_type :: 't
  probability :: real
  fs_severity :: severity
  fs_message :: string
  affectedComponents :: "string list option"
  recoverable :: bool

definition BASE_FAILURE_RATE :: real where
  "BASE_FAILURE_RATE = 0.12"

fun sand_modifiers :: "FailureType \<Rightarrow> real" where
  "sand_modifiers motor_overheat = 1.5"
| "sand_modifiers slip_event = 2.0"
| "sand_modifiers gait_mismatch = 1.3"
| "sand_modifiers rollover = 1.4"
| "sand_modifiers power_fluctuation = 1.2"
| "sand_modifiers sensor_noise = 1.1"
| "sand_modifiers joint_limit_exceeded = 1.2"

fun concrete_modifiers :: "FailureType \<Rightarrow> real" where
  "concrete_modifiers motor_overheat = 0.8"
| "concrete_modifiers slip_event = 0.3"
| "concrete_modifiers gait_mismatch = 0.7"
| "concrete_modifiers rollover = 0.6"
| "concrete_modifiers power_fluctuation = 0.9"
| "concrete_modifiers sensor_noise = 0.8"
| "concrete_modifiers joint_limit_exceeded = 1.1"

fun grass_modifiers :: "FailureType \<Rightarrow> real" where
  "grass_modifiers motor_overheat = 1.0"
| "grass_modifiers slip_event = 1.2"
| "grass_modifiers gait_mismatch = 1.0"
| "grass_modifiers rollover = 0.9"
| "grass_modifiers power_fluctuation = 1.0"
| "grass_modifiers sensor_noise = 1.0"
| "grass_modifiers joint_limit_exceeded = 0.9"

fun gravel_modifiers :: "FailureType \<Rightarrow> real" where
  "gravel_modifiers motor_overheat = 1.3"
| "gravel_modifiers slip_event = 1.5"
| "gravel_modifiers gait_mismatch = 1.4"
| "gravel_modifiers rollover = 1.3"
| "gravel_modifiers power_fluctuation = 1.1"
| "gravel_modifiers sensor_noise = 1.2"
| "gravel_modifiers joint_limit_exceeded = 1.3"

definition getTerrainModifiers :: "string \<Rightarrow> FailureType \<Rightarrow> real" where
  "getTerrainModifiers terrain =
     (if terrain = ''sand'' then sand_modifiers
      else if terrain = ''concrete'' then concrete_modifiers
      else if terrain = ''grass'' then grass_modifiers
      else if terrain = ''gravel'' then gravel_modifiers
      else concrete_modifiers)"

text \<open>
  \<open>FAILURE_SCENARIOS[type]\<close> completed with a probability
  (\<open>{ ...scenario, probability: p }\<close>).
\<close>

fun FAILURE_SCENARIOS :: "FailureType \<Rightarrow> real \<Rightarrow> FailureType FailureScenario" where
  "FAILURE_SCENARIOS motor_overheat p =
     \<lparr>fs_type = motor_overheat, probability = p, fs_severity = Warning,
      fs_message = ''Motor temperature exceeded threshold'',
      affectedComponents = Some [''leg_2_femur'', ''leg_5_femur''], recoverable = True\<rparr>"
| "FAILURE_SCENARIOS slip_event p =
     \<lparr>fs_type = slip_event, probability = p, fs_severity = Warning,
      fs_message = ''Traction loss detected during stance phase'',
      affectedComponents = Some [''leg_1'', ''leg_4''], recoverable = True\<rparr>"
| "FAILURE_SCENARIOS gait_mismatch p =
     \<lparr>fs_type = gait_mismatch, probability = p, fs_severity = Warning,
      fs_message = ''Gait phase synchronization error between leg pairs'',
      affectedComponents = Some [''leg_2'', ''leg_5''], recoverable = True\<rparr>"
| "FAILURE_SCENARIOS rollover p =
     \<lparr>fs_type = rollover, probability = p, fs_severity = Critical,
      fs_message = ''Body orientation exceeded safe limits - rollover imminent'',
      affectedComponents = None, recoverable = False\<rparr>"
| "FAILURE_SCENARIOS power_fluctuation p =
     \<lparr>fs_type = power_fluctuation, probability = p, fs_severity = Info,
      fs_message = ''Minor power supply fluctuation detected'',
      affectedComponents = None, recoverable = True\<rparr>"
| "FAILURE_SCENARIOS sensor_noise p =
     \<lparr>fs_type = sensor_noise, probability = p, fs_severity = Info,
      fs_message = ''Elevated sensor noise detected in IMU readings'',
      affectedComponents = None, recoverable = True\<rparr>"
| "FAILURE_SCENARIOS joint_limit_exceeded p =
     \<lparr>fs_type = joint_limit_exceeded, probability = p, fs_severity = Error,
      fs_message = ''Joint position limit exceeded - emergency stop triggered'',
      affectedComponents = Some [''leg_3_tibia''], recoverable = True\<rparr>"

text \<open>\<open>Object.keys(FAILURE_SCENARIOS)\<close>, in the order of the object literal.\<close>

definition failureTypes :: "FailureType list" where
  "failureTypes =
     [motor_overheat, slip_event, gait_mismatch, rollover, power_fluctuation,
      sensor_noise, joint_limit_exceeded]"

text \<open>The function mapped over \<open>failureTypes\<close> to compute the weights.\<close>

definition failure_weight :: "PhysicsConfig \<Rightarrow> real \<Rightarrow> FailureType \<Rightarrow> real" where
  "failure_weight physics simulationProgress ty =
     (let w0 = getTerrainModifiers (terrain_type physics) ty;
          w1 = (if ty = slip_event then w0 * (1.2 - friction_coefficient physics) else w0);
          w2 = (if ty = motor_overheat then w1 * (0.5 + simulationProgress) else w1);
          w3 = (if ty = rollover then w2 * ((gravity physics / 9.81) * 0.3) else w2)
      in w3)"

text \<open>
  The selection loop \<open>for (i = 0; i < failureTypes.length; i++) { random -= weights[i];
  if (random <= 0) return ...}\<close>: the first argument is the weights from index \<open>i\<close> on,
  the result is the index at which the loop returns, or \<open>None\<close> when it runs to its end
  (the function then returns \<open>null\<close>).
\<close>

fun weighted_pick :: "real list \<Rightarrow> real \<Rightarrow> nat \<Rightarrow> nat option" where
  "weighted_pick [] random i = None"
| "weighted_pick (w # ws) random i =
     (if random - w \<le> 0 then Some i else weighted_pick ws (random - w) (Suc i))"

text \<open>
  The block "weighted random selection" of \<open>shouldInjectFailure\<close> and of
  \<open>shouldInjectDroneFailure\<close> (the same code in both), from the weights and the draw
  \<open>u\<close> of \<open>Math.random()\<close>.
\<close>

definition weighted_selection ::
  "'t list \<Rightarrow> ('t \<Rightarrow> real \<Rightarrow> 't FailureScenario) \<Rightarrow> real list \<Rightarrow> real \<Rightarrow> 't FailureScenario option" where
  "weighted_selection types scenarios weights u =
     (let totalWeight = foldl (+) 0 weights;
          random = u * totalWeight
      in (case weighted_pick weights random 0 of
            None \<Rightarrow> None
          | Some i \<Rightarrow> Some (scenarios (types ! i) (weights ! i / totalWeight))))"

definition shouldInjectFailure ::
  "random_source \<Rightarrow> nat \<Rightarrow> PhysicsConfig \<Rightarrow> real \<Rightarrow> SimulationEvent list
     \<Rightarrow> FailureType FailureScenario option \<times> nat" where
  "shouldInjectFailure rnd k physics simulationProgress existingEvents =
     (let criticalCount = length (filter (\<lambda>e. severity e = Critical) existingEvents) in
      if criticalCount > 0 then (None, k)
      else
        (let warningCount =
               length (filter (\<lambda>e. severity e = Warning \<or> severity e = Error) existingEvents) in
         if warningCount \<ge> 3 then (None, k)
         else
           (let (gate, k1) = Math_random rnd k in
            if gate > BASE_FAILURE_RATE then (None, k1)
            else
              (let weights = map (failure_weight physics simulationProgress) failureTypes;
                   (u, k2) = Math_random rnd k1
               in (weighted_selection failureTypes FAILURE_SCENARIOS weights u, k2)))))"

text \<open>The rule-based checks of one sampled frame, in the order of the source.\<close>

definition ground_checks ::
  "number_text \<Rightarrow> TelemetryFrame \<Rightarrow> SimulationEvent list \<Rightarrow> SimulationEvent list" where
  "ground_checks fmt frame events =
     (let e1 = (case find slip_detected (contacts frame) of
                  None \<Rightarrow> events
                | Some c \<Rightarrow>
                    events @
                    [\<lparr>ev_timestamp = timestamp frame, ev_type = ''slip'', severity = Warning,
                      message = ''Slippage detected on '' @ leg_id c @ '' tarsus'',
                      data = Some [(''leg'', JStr (leg_id c)), (''force'', JNum (force c))]\<rparr>]);
          e2 = (if \<bar>pitch (imu frame)\<bar> > 20 then
                  e1 @
                  [\<lparr>ev_timestamp = timestamp frame, ev_type = ''stability_warning'',
                    severity = (if pitch (imu frame) > 25 then Error else Warning),
                    message = ''Body pitch deviation: '' @ toFixed fmt (pitch (imu frame)) 1
                                @ degree_sign,
                    data = Some [(''pitch'', JNum (pitch (imu frame))),
                                 (''roll'', JNum (roll (imu frame)))]\<rparr>]
                else e1);
          e3 = (if \<bar>pitch (imu frame)\<bar> > 30 \<or> \<bar>roll (imu frame)\<bar> > 25 then
                  e2 @
                  [\<lparr>ev_timestamp = timestamp frame, ev_type = ''rollover'', severity = Critical,
                    message = ''Orientation exceeded safe limits'',
                    data = Some [(''pitch'', JNum (pitch (imu frame))),
                                 (''roll'', JNum (roll (imu frame)))]\<rparr>]
                else e2);
          e4 = (if temperature (power frame) > 50 then
                  e3 @
                  [\<lparr>ev_timestamp = timestamp frame, ev_type = ''overheat'', severity = Warning,
                    message = ''Motor temperature elevated: ''
                                @ toString fmt (temperature (power frame)) @ degree_sign @ ''C'',
                    data = Some [(''temperature'', JNum (temperature (power frame)))]\<rparr>]
                else e3)
      in e4)"

definition components_value :: "string list option \<Rightarrow> jsval" where
  "components_value cs = (case cs of None \<Rightarrow> JUndefined | Some l \<Rightarrow> JStrings l)"

text \<open>
  One pass through the body of the sampling loop, at index \<open>i\<close>. The state is the list
  \<open>events\<close> and the index of the next random draw.
\<close>

definition sample_frame ::
  "number_text \<Rightarrow> random_source \<Rightarrow> TelemetryFrame list \<Rightarrow> PhysicsConfig \<Rightarrow> nat
     \<Rightarrow> SimulationEvent list \<times> nat \<Rightarrow> SimulationEvent list \<times> nat" where
  "sample_frame fmt rnd frames physics i st =
     (let frame = frames ! i;
          progress = real i / real (length frames);
          events = ground_checks fmt frame (fst st);
          (injectedFailure, k') = shouldInjectFailure rnd (snd st) physics progress events
      in (case injectedFailure of
            None \<Rightarrow> (events, k')
          | Some f \<Rightarrow>
              (events @
               [\<lparr>ev_timestamp = timestamp frame, ev_type = FailureType_name (fs_type f),
                 severity = fs_severity f, message = fs_message f,
                 data = Some [(''affectedComponents'', components_value (affectedComponents f))]\<rparr>],
               k')))"

text \<open>
  The loop \<open>for (let i = sampleRate; i < frames.length; i += sampleRate)\<close>. Nothing in
  the source makes \<open>sampleRate\<close> positive, so the loop is a partial function: \<open>None\<close>
  is a run that never leaves the loop.
\<close>

partial_function (option) sampling_loop ::
  "number_text \<Rightarrow> random_source \<Rightarrow> TelemetryFrame list \<Rightarrow> PhysicsConfig \<Rightarrow> nat \<Rightarrow> nat
     \<Rightarrow> SimulationEvent list \<times> nat \<Rightarrow> (SimulationEvent list \<times> nat) option" where
  "sampling_loop fmt rnd frames physics sampleRate i st =
     (if i < length frames
      then sampling_loop fmt rnd frames physics sampleRate (i + sampleRate)
             (sample_frame fmt rnd frames physics i st)
      else Some st)"

text \<open>
  \<open>generateSimulationEvents\<close>: the events (cut to the first ten) and the index of the
  next random draw, or \<open>None\<close> when the call does not return.
\<close>

definition generateSimulationEvents ::
  "number_text \<Rightarrow> random_source \<Rightarrow> nat \<Rightarrow> TelemetryFrame list \<Rightarrow> PhysicsConfig
     \<Rightarrow> (SimulationEvent list \<times> nat) option" where
  "generateSimulationEvents fmt rnd k frames physics =
     (let sampleRate = length frames div 10 in
      map_option (\<lambda>st. (take 10 (fst st), snd st))
        (sampling_loop fmt rnd frames physics sampleRate sampleRate ([], k)))"

definition shouldSimulationFail :: "SimulationEvent list \<Rightarrow> bool" where
  "shouldSimulationFail events =
     (let criticalEvents = filter (\<lambda>e. severity e = Critical) events
      in length criticalEvents > 0)"

text \<open>
  \<open>[...new Set(xs)]\<close>: the elements of \<open>xs\<close> in the order of their first occurrence.
  The first argument is the set built so far, in insertion order.
\<close>

fun set_in_order :: "'a list \<Rightarrow> 'a list \<Rightarrow> 'a list" where
  "set_in_order seen [] = seen"
| "set_in_order seen (x # xs) =
     (if x \<in> set seen then set_in_order seen xs else set_in_order (seen @ [x]) xs)"

text \<open>\<open>event.data?.affectedComponents?.[0] || 'leg_2'\<close>.\<close>

definition first_affected_component :: "SimulationEvent \<Rightarrow> string" where
  "first_affected_component e =
     (let v = (case data e of
                 None \<Rightarrow> JUndefined
               | Some d \<Rightarrow> (case map_of d ''affectedComponents'' of None \<Rightarrow> JUndefined | Some x \<Rightarrow> x));
          x = (case v of
                 JStrings l \<Rightarrow> (case l of [] \<Rightarrow> [] | a # _ \<Rightarrow> a)
               | JStr s \<Rightarrow> take 1 s
               | _ \<Rightarrow> [])
      in if x = [] then ''leg_2'' else x)"

text \<open>The \<open>switch\<close> of \<open>generateRecommendations\<close>: what one event pushes.\<close>

definition recommendations_for :: "number_text \<Rightarrow> PhysicsConfig \<Rightarrow> SimulationEvent \<Rightarrow> string list" where
  "recommendations_for fmt physics e =
     (if ev_type e = ''slip'' then
        (if friction_coefficient physics < 0.7 then
           [''Increase friction_coefficient to ''
              @ toFixed fmt (min 1.0 (friction_coefficient physics + 0.15)) 2
              @ '' for '' @ terrain_type physics @ '' terrain'']
         else [])
        @ [''Consider reducing gait speed during stance phase'']
      else if ev_type e = ''overheat'' then
        [''Reduce pid_p gain to decrease motor effort'',
         ''Consider implementing thermal throttling'']
      else if ev_type e = ''stability_warning'' \<or> ev_type e = ''rollover'' then
        [''Lower center of mass by reducing femur joint angles'',
         ''Increase pid_d on affected legs to dampen oscillations'']
      else if ev_type e = ''gait_mismatch'' then
        [''Reduce pid_p on '' @ first_affected_component e @ ''_femur to dampen oscillation'',
         ''Verify gait timing synchronization'']
      else [])"

definition generateRecommendations ::
  "number_text \<Rightarrow> SimulationEvent list \<Rightarrow> PhysicsConfig \<Rightarrow> string list" where
  "generateRecommendations fmt events physics =
     (let recommendations = concat (map (recommendations_for fmt physics) events)
      in take 5 (set_in_order [] recommendations))"

subsection \<open>The drone failure system\<close>

datatype DroneFailureType =
  motor_failure | gps_loss | low_battery | signal_lost | geofence_breach | wind_warning
  | obstacle_detected | flyaway

fun DroneFailureType_name :: "DroneFailureType \<Rightarrow> string" where
  "DroneFailureType_name motor_failure = ''motor_failure''"
| "DroneFailureType_name gps_loss = ''gps_loss''"
| "DroneFailureType_name low_battery = ''low_battery''"
| "DroneFailureType_name signal_lost = ''signal_lost''"
| "DroneFailureType_name geofence_breach = ''geofence_breach''"
| "DroneFailureType_name wind_warning = ''wind_warning''"
| "DroneFailureType_name obstacle_detected = ''obstacle_detected''"
| "DroneFailureType_name flyaway = ''flyaway''"

definition DRONE_BASE_FAILURE_RATE :: real where
  "DRONE_BASE_FAILURE_RATE = 0.08"

fun calm_modifiers :: "DroneFailureType \<Rightarrow> real" where
  "calm_modifiers motor_failure = 0.5"
| "calm_modifiers gps_loss = 0.6"
| "calm_modifiers low_battery = 1.0"
| "calm_modifiers signal_lost = 0.7"
| "calm_modifiers geofence_breach = 0.8"
| "calm_modifiers wind_warning = 0.1"
| "calm_modifiers obstacle_detected = 1.0"
| "calm_modifiers flyaway = 0.3"

fun light_wind_modifiers :: "DroneFailureType \<Rightarrow> real" where
  "light_wind_modifiers motor_failure = 0.8"
| "light_wind_modifiers gps_loss = 0.8"
| "light_wind_modifiers low_battery = 1.2"
| "light_wind_modifiers signal_lost = 0.9"
| "light_wind_modifiers geofence_breach = 1.0"
| "light_wind_modifiers wind_warning = 0.5"
| "light_wind_modifiers obstacle_detected = 1.0"
| "light_wind_modifiers flyaway = 0.5"

fun gusty_modifiers :: "DroneFailureType \<Rightarrow> real" where
  "gusty_modifiers motor_failure = 1.2"
| "gusty_modifiers gps_loss = 1.0"
| "gusty_modifiers low_battery = 1.5"
| "gusty_modifiers signal_lost = 1.2"
| "gusty_modifiers geofence_breach = 1.3"
| "gusty_modifiers wind_warning = 2.0"
| "gusty_modifiers obstacle_detected = 0.8"
| "gusty_modifiers flyaway = 1.0"

fun turbulent_modifiers :: "DroneFailureType \<Rightarrow> real" where
  "turbulent_modifiers motor_failure = 1.8"
| "turbulent_modifiers gps_loss = 1.3"
| "turbulent_modifiers low_battery = 2.0"
| "turbulent_modifiers signal_lost = 1.5"
| "turbulent_modifiers geofence_breach = 1.5"
| "turbulent_modifiers wind_warning = 3.0"
| "turbulent_modifiers obstacle_detected = 0.6"
| "turbulent_modifiers flyaway = 1.5"

definition getAirspaceModifiers :: "string \<Rightarrow> DroneFailureType \<Rightarrow> real" where
  "getAirspaceModifiers condition =
     (if condition = ''calm'' then calm_modifiers
      else if condition = ''light_wind'' then light_wind_modifiers
      else if condition = ''gusty'' then gusty_modifiers
      else if condition = ''turbulent'' then turbulent_modifiers
      else calm_modifiers)"

fun DRONE_FAILURE_SCENARIOS :: "DroneFailureType \<Rightarrow> real \<Rightarrow> DroneFailureType FailureScenario" where
  "DRONE_FAILURE_SCENARIOS motor_failure p =
     \<lparr>fs_type = motor_failure, probability = p, fs_severity = Error,
      fs_message = ''Motor RPM variance exceeded threshold - degraded performance'',
      affectedComponents = Some [''rotor_fr''], recoverable = True\<rparr>"
| "DRONE_FAILURE_SCENARIOS gps_loss p =
     \<lparr>fs_type = gps_loss, probability = p, fs_severity = Warning,
      fs_message = ''GPS signal degraded - position accuracy reduced'',
      affectedComponents = None, recoverable = True\<rparr>"
| "DRONE_FAILURE_SCENARIOS low_battery p =
     \<lparr>fs_type = low_battery, probability = p, fs_severity = Warning,
      fs_message = ''Battery level critical - return to home recommended'',
      affectedComponents = None, recoverable = True\<rparr>"
| "DRONE_FAILURE_SCENARIOS signal_lost p =
     \<lparr>fs_type = signal_lost, probability = p, fs_severity = Error,
      fs_message = ''RC link signal strength below threshold'',
      affectedComponents = None, recoverable = True\<rparr>"
| "DRONE_FAILURE_SCENARIOS geofence_breach p =
     \<lparr>fs_type = geofence_breach, probability = p, fs_severity = Warning,
      fs_message = ''Approaching operational boundary - course correction initiated'',
      affectedComponents = None, recoverable = True\<rparr>"
| "DRONE_FAILURE_SCENARIOS wind_warning p =
     \<lparr>fs_type = wind_warning, probability = p, fs_severity = Warning,
      fs_message = ''Wind speed exceeding safe operational limits'',
      affectedComponents = None, recoverable = True\<rparr>"
| "DRONE_FAILURE_SCENARIOS obstacle_detected p =
     \<lparr>fs_type = obstacle_detected, probability = p, fs_severity = Info,
      fs_message = ''Obstacle detected - avoidance maneuver executed'',
      affectedComponents = None, recoverable = True\<rparr>"
| "DRONE_FAILURE_SCENARIOS flyaway p =
     \<lparr>fs_type = flyaway, probability = p, fs_severity = Critical,
      fs_message = ''Loss of control detected - failsafe triggered'',
      affectedComponents = None, recoverable = False\<rparr>"

definition droneFailureTypes :: "DroneFailureType list" where
  "droneFailureTypes =
     [motor_failure, gps_loss, low_battery, signal_lost, geofence_breach, wind_warning,
      obstacle_detected, flyaway]"

definition drone_failure_weight :: "DronePhysicsConfig \<Rightarrow> real \<Rightarrow> DroneFailureType \<Rightarrow> real" where
  "drone_failure_weight physics flightProgress ty =
     (let w0 = getAirspaceModifiers (airspace_condition physics) ty;
          w1 = (if ty = wind_warning then w0 * (wind_speed physics / 5) else w0);
          w2 = (if ty = low_battery then w1 * (0.3 + flightProgress) else w1);
          w3 = (if ty = gps_loss then w2 * (1 - flightProgress * 0.3) else w2);
          w4 = (if ty = flyaway then w3 * 0.1 else w3)
      in w4)"

definition shouldInjectDroneFailure ::
  "random_source \<Rightarrow> nat \<Rightarrow> DronePhysicsConfig \<Rightarrow> real \<Rightarrow> DroneSimulationEvent list
     \<Rightarrow> DroneFailureType FailureScenario option \<times> nat" where
  "shouldInjectDroneFailure rnd k physics flightProgress existingEvents =
     (let criticalCount = length (filter (\<lambda>e. severity e = Critical) existingEvents) in
      if criticalCount > 0 then (None, k)
      else
        (let warningCount =
               length (filter (\<lambda>e. severity e = Warning \<or> severity e = Error) existingEvents) in
         if warningCount \<ge> 3 then (None, k)
         else
           (let (gate, k1) = Math_random rnd k in
            if gate > DRONE_BASE_FAILURE_RATE then (None, k1)
            else
              (let weights = map (drone_failure_weight physics flightProgress) droneFailureTypes;
                   (u, k2) = Math_random rnd k1
               in (weighted_selection droneFailureTypes DRONE_FAILURE_SCENARIOS weights u, k2)))))"

text \<open>
  The rotor check. \<open>Math.max(...[])\<close> is \<open>-Infinity\<close>, so an empty rotor list raises no
  event; \<open>findIndex\<close> returns the first rotor at the maximal deviation.
\<close>

definition rotor_check ::
  "number_text \<Rightarrow> DroneTelemetryFrame \<Rightarrow> DroneSimulationEvent list \<Rightarrow> DroneSimulationEvent list" where
  "rotor_check fmt frame events =
     (let avgRPM = foldl (+) 0 (rotor_speeds frame) / 4;
          deviations = map (\<lambda>r. \<bar>r - avgRPM\<bar>) (rotor_speeds frame)
      in (case deviations of
            [] \<Rightarrow> events
          | d # ds \<Rightarrow>
              (let maxVariance = fold max ds d in
               if maxVariance > 500 then
                 (let problemRotor = length (takeWhile (\<lambda>x. x \<noteq> maxVariance) deviations) in
                  events @
                  [\<lparr>ev_timestamp = d_timestamp frame, ev_type = ''motor_failure'',
                    severity = (if maxVariance > 1000 then Error else Warning),
                    message = ''Rotor '' @ toString fmt (real problemRotor + 1) @ '' showing ''
                                @ toFixed fmt maxVariance 0 @ '' RPM variance'',
                    data = Some [(''rotor'', JNum (real problemRotor)),
                                 (''variance'', JNum maxVariance),
                                 (''rpm'', JNum (rotor_speeds frame ! problemRotor))]\<rparr>])
               else events)))"

definition drone_checks ::
  "number_text \<Rightarrow> DroneTelemetryFrame \<Rightarrow> DroneSimulationEvent list \<Rightarrow> DroneSimulationEvent list" where
  "drone_checks fmt frame events =
     (let e1 = (if gps_quality frame < 70 then
                  events @
                  [\<lparr>ev_timestamp = d_timestamp frame, ev_type = ''gps_loss'',
                    severity = (if gps_quality frame < 50 then Error else Warning),
                    message = ''GPS quality degraded to '' @ toString fmt (gps_quality frame) @ ''%'',
                    data = Some [(''gps_quality'', JNum (gps_quality frame))]\<rparr>]
                else events);
          e2 = (if remaining (battery frame) < 20 then
                  e1 @
                  [\<lparr>ev_timestamp = d_timestamp frame, ev_type = ''low_battery'',
                    severity = (if remaining (battery frame) < 10 then Critical else Warning),
                    message = ''Battery critical: '' @ toFixed fmt (remaining (battery frame)) 0
                                @ ''% remaining'',
                    data = Some [(''battery_remaining'', JNum (remaining (battery frame))),
                                 (''voltage'', JNum (bat_voltage (battery frame)))]\<rparr>]
                else e1);
          e3 = (if signal_strength frame < - 70 then
                  e2 @
                  [\<lparr>ev_timestamp = d_timestamp frame, ev_type = ''signal_lost'',
                    severity = Warning,
                    message = ''RC signal weak: '' @ toString fmt (signal_strength frame) @ ''dBm'',
                    data = Some [(''signal_strength'', JNum (signal_strength frame))]\<rparr>]
                else e2);
          e4 = (if \<bar>att_roll (attitude frame)\<bar> > 15 \<or> \<bar>att_pitch (attitude frame)\<bar> > 15 then
                  e3 @
                  [\<lparr>ev_timestamp = d_timestamp frame, ev_type = ''wind_warning'',
                    severity = Warning,
                    message = ''Excessive attitude deviation: roll=''
                                @ toFixed fmt (att_roll (attitude frame)) 1 @ degree_sign
                                @ '', pitch='' @ toFixed fmt (att_pitch (attitude frame)) 1
                                @ degree_sign,
                    data = Some [(''roll'', JNum (att_roll (attitude frame))),
                                 (''pitch'', JNum (att_pitch (attitude frame)))]\<rparr>]
                else e3)
      in rotor_check fmt frame e4)"

definition sample_drone_frame ::
  "number_text \<Rightarrow> random_source \<Rightarrow> DroneTelemetryFrame list \<Rightarrow> DronePhysicsConfig \<Rightarrow> nat
     \<Rightarrow> DroneSimulationEvent list \<times> nat \<Rightarrow> DroneSimulationEvent list \<times> nat" where
  "sample_drone_frame fmt rnd frames physics i st =
     (let frame = frames ! i;
          progress = real i / real (length frames);
          events = drone_checks fmt frame (fst st);
          (injectedFailure, k') = shouldInjectDroneFailure rnd (snd st) physics progress events
      in (case injectedFailure of
            None \<Rightarrow> (events, k')
          | Some f \<Rightarrow>
              (events @
               [\<lparr>ev_timestamp = d_timestamp frame, ev_type = DroneFailureType_name (fs_type f),
                 severity = fs_severity f, message = fs_message f,
                 data = Some [(''affectedComponents'', components_value (affectedComponents f))]\<rparr>],
               k')))"

partial_function (option) drone_sampling_loop ::
  "number_text \<Rightarrow> random_source \<Rightarrow> DroneTelemetryFrame list \<Rightarrow> DronePhysicsConfig \<Rightarrow> nat \<Rightarrow> nat
     \<Rightarrow> DroneSimulationEvent list \<times> nat \<Rightarrow> (DroneSimulationEvent list \<times> nat) option" where
  "drone_sampling_loop fmt rnd frames physics sampleRate i st =
     (if i < length frames
      then drone_sampling_loop fmt rnd frames physics sampleRate (i + sampleRate)
             (sample_drone_frame fmt rnd frames physics i st)
      else Some st)"

definition generateDroneSimulationEvents ::
  "number_text \<Rightarrow> random_source \<Rightarrow> nat \<Rightarrow> DroneTelemetryFrame list \<Rightarrow> DronePhysicsConfig
     \<Rightarrow> (DroneSimulationEvent list \<times> nat) option" where
  "generateDroneSimulationEvents fmt rnd k frames physics =
     (let sampleRate = length frames div 10 in
      map_option (\<lambda>st. (take 10 (fst st), snd st))
        (drone_sampling_loop fmt rnd frames physics sampleRate sampleRate ([], k)))"

definition shouldDroneSimulationFail :: "DroneSimulationEvent list \<Rightarrow> bool" where
  "shouldDroneSimulationFail events =
     (let criticalEvents = filter (\<lambda>e. severity e = Critical) events
      in length criticalEvents > 0)"

definition drone_recommendations_for :: "DronePhysicsConfig \<Rightarrow> DroneSimulationEvent \<Rightarrow> string list" where
  "drone_recommendations_for physics e =
     (if ev_type e = ''motor_failure'' then
        [''Check motor and ESC connections for affected rotor'',
         ''Calibrate ESCs to ensure synchronized response'']
      else if ev_type e = ''gps_loss'' then
        [''Consider GPS/visual odometry fusion for improved positioning'',
         ''Avoid flying near structures that cause multipath interference'']
      else if ev_type e = ''low_battery'' then
        [''Reduce flight time or use higher capacity battery'',
         ''Monitor power consumption and optimize flight profile'']
      else if ev_type e = ''signal_lost'' then
        [''Check antenna alignment and orientation'',
         ''Consider using diversity receiver for better coverage'']
      else if ev_type e = ''wind_warning'' then
        [''Increase roll PID gains for better wind rejection'',
         ''Reduce flight altitude in gusty conditions'']
        @ (if wind_speed physics > 5 then
             [''Consider postponing flight until wind conditions improve'']
           else [])
      else if ev_type e = ''geofence_breach'' then
        [''Review and expand geofence boundaries if safe'',
         ''Enable automatic return-to-home at boundary'']
      else if ev_type e = ''obstacle_detected'' then
        [''Verify obstacle avoidance sensor calibration'',
         ''Increase minimum safe distance parameter'']
      else if ev_type e = ''flyaway'' then
        [''Check compass calibration and magnetic interference'',
         ''Verify failsafe settings are configured correctly'',
         ''Review flight logs for root cause analysis'']
      else [])"

definition generateDroneRecommendations ::
  "DroneSimulationEvent list \<Rightarrow> DronePhysicsConfig \<Rightarrow> string list" where
  "generateDroneRecommendations events physics =
     (let recommendations = concat (map (drone_recommendations_for physics) events)
      in take 5 (set_in_order [] recommendations))"

section \<open>The session store (state.ts)\<close>

text \<open>
  A run record stores \<open>session.physics\<close> and \<open>session.motors\<close> as they are, that is
  as references to a \<open>PhysicsConfig\<close> object and to a \<open>Map\<close>. Both kinds of object
  therefore live in a heap, and sessions and runs hold addresses. Session objects are
  reachable only through the map \<open>sessions\<close> and run objects are never written after
  their creation, so both are kept as values. \<open>Date.now()\<close> is the parameter \<open>now\<close>
  of every operation; the periodic cleanup of expired sessions is not modelled.
\<close>

type_synonym ref = nat

datatype run_status = pending | running | completed | failed

record SimulationRun =
  run_id :: string
  status :: run_status
  started_at :: real
  completed_at :: "real option"
  duration_requested :: real
  duration_actual :: "real option"
  physics_config :: ref
  motor_configs :: ref
  run_telemetry :: "TelemetryFrame list"
  run_events :: "SimulationEvent list"
  run_metrics :: "SimulationMetrics option"
  video_url :: "string option"

record SessionState =
  session_id :: string
  created_at :: real
  last_accessed :: real
  session_physics :: ref
  session_motors :: ref
  runs :: "SimulationRun list"
  current_run :: "SimulationRun option"

record store =
  sessions :: "string \<rightharpoonup> SessionState"
  physics_heap :: "ref \<Rightarrow> PhysicsConfig"
  motors_heap :: "ref \<Rightarrow> (string \<rightharpoonup> MotorParams)"
  next_ref :: ref

definition empty_store :: store where
  "empty_store =
     \<lparr>sessions = Map.empty, physics_heap = (\<lambda>_. DEFAULT_PHYSICS),
      motors_heap = (\<lambda>_. Map.empty), next_ref = 0\<rparr>"

definition DEFAULT_DRONE_PHYSICS :: DronePhysicsConfig where
  "DEFAULT_DRONE_PHYSICS =
     \<lparr>air_density = 1.225, wind_speed = 2.0, wind_direction = 180,
      airspace_condition = ''light_wind''\<rparr>"

text \<open>
  \<open>createDefaultSession\<close> allocates the map of the eighteen default motors and a copy
  of \<open>DEFAULT_PHYSICS\<close>.
\<close>

definition createDefaultSession :: "real \<Rightarrow> string \<Rightarrow> store \<Rightarrow> SessionState \<times> store" where
  "createDefaultSession now sessionId st =
     (let m = next_ref st;
          p = Suc (next_ref st);
          motors = fold (\<lambda>jointId mp. mp(jointId \<mapsto> default_motor jointId)) HEXAPOD_JOINTS Map.empty
      in (\<lparr>session_id = sessionId, created_at = now, last_accessed = now,
           session_physics = p, session_motors = m, runs = [], current_run = None\<rparr>,
          st\<lparr>physics_heap := (physics_heap st)(p := DEFAULT_PHYSICS),
             motors_heap := (motors_heap st)(m := motors),
             next_ref := Suc (Suc (next_ref st))\<rparr>))"

definition getOrCreate :: "real \<Rightarrow> string \<Rightarrow> store \<Rightarrow> SessionState \<times> store" where
  "getOrCreate now sessionId st =
     (case sessions st sessionId of
        None \<Rightarrow>
          (let (session, st1) = createDefaultSession now sessionId st
           in (session, st1\<lparr>sessions := (sessions st1)(sessionId \<mapsto> session)\<rparr>))
      | Some session \<Rightarrow>
          (let session1 = session\<lparr>last_accessed := now\<rparr>
           in (session1, st\<lparr>sessions := (sessions st)(sessionId \<mapsto> session1)\<rparr>)))"

text \<open>
  A \<open>Partial<PhysicsConfig>\<close>: \<open>None\<close> is a key that the object does not have. The
  arguments of \<open>configure_physics\<close> arrive as JSON, which cannot hold \<open>undefined\<close>.
\<close>

record physics_patch =
  patch_gravity :: "real option"
  patch_friction_coefficient :: "real option"
  patch_terrain_type :: "string option"
  patch_terrain_roughness :: "real option"

text \<open>\<open>session.physics = { ...session.physics, ...physics }\<close>: a new object.\<close>

definition updatePhysics :: "real \<Rightarrow> string \<Rightarrow> physics_patch \<Rightarrow> store \<Rightarrow> PhysicsConfig \<times> store" where
  "updatePhysics now sessionId patch st =
     (let (session, st1) = getOrCreate now sessionId st;
          old = physics_heap st1 (session_physics session);
          merged =
            \<lparr>gravity = (case patch_gravity patch of None \<Rightarrow> gravity old | Some v \<Rightarrow> v),
             friction_coefficient =
               (case patch_friction_coefficient patch of
                  None \<Rightarrow> friction_coefficient old | Some v \<Rightarrow> v),
             terrain_type =
               (case patch_terrain_type patch of None \<Rightarrow> terrain_type old | Some v \<Rightarrow> v),
             terrain_roughness =
               (case patch_terrain_roughness patch of
                  None \<Rightarrow> terrain_roughness old | Some v \<Rightarrow> v)\<rparr>;
          r = next_ref st1
      in (merged,
          st1\<lparr>physics_heap := (physics_heap st1)(r := merged),
              next_ref := Suc r,
              sessions := (sessions st1)(sessionId \<mapsto> session\<lparr>session_physics := r\<rparr>)\<rparr>))"

text \<open>
  A \<open>Partial<MotorParams>\<close>: \<open>None\<close> is a key that the object does not have, and
  \<open>Some v\<close> a key that it has, with the value \<open>v\<close>, which can be \<open>undefined\<close>. Object
  spread copies every own key of its argument, whatever the value.
\<close>

record motor_patch =
  patch_torque_limit :: "jsnum option"
  patch_pid_p :: "jsnum option"
  patch_pid_i :: "jsnum option"
  patch_pid_d :: "jsnum option"
  patch_max_velocity :: "jsnum option"

definition spread :: "'a \<Rightarrow> 'a option \<Rightarrow> 'a" where
  "spread existing patch = (case patch of None \<Rightarrow> existing | Some v \<Rightarrow> v)"

text \<open>
  \<open>updateMotor\<close>: \<open>{ ...existing, ...params, joint_id: jointId }\<close> is stored with
  \<open>session.motors.set\<close>, which writes the \<open>Map\<close> that \<open>session.motors\<close> refers to.
\<close>

definition updateMotor ::
  "real \<Rightarrow> string \<Rightarrow> string \<Rightarrow> motor_patch \<Rightarrow> store \<Rightarrow> MotorParams \<times> store" where
  "updateMotor now sessionId jointId params st =
     (let (session, st1) = getOrCreate now sessionId st;
          m = session_motors session;
          existing = (case motors_heap st1 m jointId of
                        Some e \<Rightarrow> e
                      | None \<Rightarrow> default_motor jointId);
          updated =
            \<lparr>joint_id = jointId,
             torque_limit = spread (torque_limit existing) (patch_torque_limit params),
             pid_p = spread (pid_p existing) (patch_pid_p params),
             pid_i = spread (pid_i existing) (patch_pid_i params),
             pid_d = spread (pid_d existing) (patch_pid_d params),
             max_velocity = spread (max_velocity existing) (patch_max_velocity params)\<rparr>
      in (updated,
          st1\<lparr>motors_heap := (motors_heap st1)(m := (motors_heap st1 m)(jointId \<mapsto> updated))\<rparr>))"

definition addRun :: "real \<Rightarrow> string \<Rightarrow> SimulationRun \<Rightarrow> store \<Rightarrow> store" where
  "addRun now sessionId run st =
     (let (session, st1) = getOrCreate now sessionId st;
          pushed = runs session @ [run];
          kept = (if length pushed > 10 then drop (length pushed - 10) pushed else pushed)
      in st1\<lparr>sessions :=
               (sessions st1)(sessionId \<mapsto> session\<lparr>runs := kept, current_run := Some run\<rparr>)\<rparr>)"

section \<open>The tools of the simulation service (index.ts)\<close>

text \<open>
  Every tool first sleeps for \<open>randomDelay(min, max)\<close> milliseconds, which takes one
  draw. The message texts of the results are not modelled.
\<close>

definition randomDelay :: "random_source \<Rightarrow> nat \<Rightarrow> real \<Rightarrow> real \<Rightarrow> real \<times> nat" where
  "randomDelay rnd k minMs maxMs =
     (let (u, k') = Math_random rnd k
      in (Math_floor (u * (maxMs - minMs + 1)) + minMs, k'))"

definition to_lower :: "char \<Rightarrow> char" where
  "to_lower c =
     (if 65 \<le> (of_char c :: nat) \<and> (of_char c :: nat) \<le> 90 then char_of ((of_char c :: nat) + 32)
      else c)"

definition toLowerCase :: "string \<Rightarrow> string" where
  "toLowerCase s = map to_lower s"

fun str_includes :: "string \<Rightarrow> string \<Rightarrow> bool" where
  "str_includes [] sub = (sub = [])"
| "str_includes (c # cs) sub = (take (length sub) (c # cs) = sub \<or> str_includes cs sub)"

definition R2_VIDEO_BASE :: string where
  "R2_VIDEO_BASE = ''https://pub-d81bd376745a4ee1b9073461f2c2651d.r2.dev''"

definition R2_VIDEO_MAP :: "(string \<times> string) list" where
  "R2_VIDEO_MAP =
     [(''drone'', R2_VIDEO_BASE @ ''/uav_scenes.mp4''),
      (''uav'', R2_VIDEO_BASE @ ''/uav_scenes.mp4''),
      (''quadcopter'', R2_VIDEO_BASE @ ''/uav_scenes.mp4''),
      (''aerial'', R2_VIDEO_BASE @ ''/uav_scenes.mp4'')]"

definition getR2VideoUrl :: "string \<Rightarrow> string option" where
  "getR2VideoUrl robotType =
     (let key = toLowerCase robotType in
      case map_of R2_VIDEO_MAP key of
        Some url \<Rightarrow> Some url
      | None \<Rightarrow> map_option snd (find (\<lambda>entry. str_includes key (fst entry)) R2_VIDEO_MAP))"

text \<open>
  \<open>generateRunId\<close> and the identifier of a flight: the prefix, the clock in seconds
  and four characters of a draw written in base 36.
\<close>

definition generateId :: "number_text \<Rightarrow> random_source \<Rightarrow> nat \<Rightarrow> real \<Rightarrow> string \<Rightarrow> string \<times> nat" where
  "generateId fmt rnd k now prefix =
     (let (u, k') = Math_random rnd k
      in (prefix @ toString fmt (Math_floor (now / 1000)) @ ''_''
            @ take 4 (drop 2 (toString36 fmt u)),
          k'))"

record ToolError =
  code :: string
  error_message :: string
  error_recoverable :: bool

record configure_args =
  arg_gravity :: "real option"
  arg_friction_coefficient :: "real option"
  arg_terrain_type :: "string option"

record ConfigurePhysicsResult =
  configure_status :: string
  applied_config :: PhysicsConfig
  warnings :: "string list option"

definition configurePhysics ::
  "random_source \<Rightarrow> nat \<Rightarrow> real \<Rightarrow> string \<Rightarrow> configure_args \<Rightarrow> store
     \<Rightarrow> ConfigurePhysicsResult \<times> store \<times> nat" where
  "configurePhysics rnd k now sessionId args st =
     (let (delay, k') = randomDelay rnd k 300 700;
          clamped = (case arg_friction_coefficient args of
                       None \<Rightarrow> False
                     | Some f \<Rightarrow> f < 0 \<or> f > 1);
          friction = (if clamped
                      then map_option (\<lambda>f. max 0 (min 1 f)) (arg_friction_coefficient args)
                      else arg_friction_coefficient args);
          w1 = (if clamped then [''friction_coefficient clamped to valid range [0, 1]''] else []);
          unknown = (case arg_terrain_type args of
                       None \<Rightarrow> False
                     | Some t \<Rightarrow> t \<noteq> [] \<and> t \<notin> set [''sand'', ''concrete'', ''grass'', ''gravel'']);
          terrain = (if unknown then Some ''concrete'' else arg_terrain_type args);
          w2 = (if unknown then w1 @ [''Unknown terrain type, defaulting to concrete''] else w1);
          (physics, st') =
            updatePhysics now sessionId
              \<lparr>patch_gravity = arg_gravity args, patch_friction_coefficient = friction,
               patch_terrain_type = terrain, patch_terrain_roughness = None\<rparr> st
      in (\<lparr>configure_status = (if length w2 > 0 then ''partial'' else ''success''),
           applied_config = physics,
           warnings = (if length w2 > 0 then Some w2 else None)\<rparr>,
          st', k'))"

text \<open>
  The arguments of \<open>update_motor_params\<close>: \<open>None\<close> is an argument that was not
  supplied, which the tool reads as \<open>undefined\<close>.
\<close>

record motor_args =
  arg_joint_id :: "string option"
  arg_torque_limit :: jsnum
  arg_pid_p :: jsnum
  arg_pid_i :: jsnum
  arg_pid_d :: jsnum

record UpdateMotorResult =
  update_status :: string
  update_joint_id :: string
  applied_params :: MotorParams

text \<open>
  \<open>updateMotorParams\<close> passes the object literal \<open>{ torque_limit: args.torque_limit,
  pid_p: args.pid_p, pid_i: args.pid_i, pid_d: args.pid_d }\<close>, which has all four keys.
\<close>

definition updateMotorParams ::
  "random_source \<Rightarrow> nat \<Rightarrow> real \<Rightarrow> string \<Rightarrow> motor_args \<Rightarrow> store
     \<Rightarrow> (ToolError + UpdateMotorResult) \<times> store \<times> nat" where
  "updateMotorParams rnd k now sessionId args st =
     (let (delay, k') = randomDelay rnd k 200 400 in
      case arg_joint_id args of
        None \<Rightarrow>
          (Inl \<lparr>code = ''MISSING_PARAM'', error_message = ''joint_id is required'',
                error_recoverable = True\<rparr>, st, k')
      | Some jointId \<Rightarrow>
          if jointId = [] then
            (Inl \<lparr>code = ''MISSING_PARAM'', error_message = ''joint_id is required'',
                  error_recoverable = True\<rparr>, st, k')
          else
            (let (motor, st') =
                   updateMotor now sessionId jointId
                     \<lparr>patch_torque_limit = Some (arg_torque_limit args),
                      patch_pid_p = Some (arg_pid_p args),
                      patch_pid_i = Some (arg_pid_i args),
                      patch_pid_d = Some (arg_pid_d args),
                      patch_max_velocity = None\<rparr> st
             in (Inr \<lparr>update_status = ''success'', update_joint_id = jointId,
                      applied_params = motor\<rparr>, st', k')))"

record run_args =
  arg_duration_seconds :: "real option"
  arg_robot_type :: "string option"
  arg_wind_speed :: "real option"
  arg_airspace_condition :: "string option"

record RunSimulationResult =
  result_run_id :: string
  result_status :: run_status
  result_video_url :: string
  result_duration_actual :: real
  result_metrics :: SimulationMetrics

record DroneRunSimulationResult =
  flight_run_id :: string
  flight_status :: run_status
  flight_video_url :: string
  flight_duration_actual :: real
  flight_metrics :: DroneSimulationMetrics
  flight_path :: DroneFlightPath

text \<open>\<open>x || d\<close> for an optional number: \<open>undefined\<close> and \<open>0\<close> give the default.\<close>

definition number_or :: "real option \<Rightarrow> real \<Rightarrow> real" where
  "number_or x d = (case x of None \<Rightarrow> d | Some v \<Rightarrow> if v = 0 then d else v)"

definition string_or :: "string option \<Rightarrow> string \<Rightarrow> string" where
  "string_or x d = (case x of None \<Rightarrow> d | Some v \<Rightarrow> if v = [] then d else v)"

text \<open>
  \<open>runDroneSimulation\<close> does not touch the store. The result is \<open>None\<close> when the event
  generator does not return, and when the telemetry is not represented.
\<close>

definition runDroneSimulation ::
  "number_text \<Rightarrow> random_source \<Rightarrow> nat \<Rightarrow> real \<Rightarrow> string \<Rightarrow> run_args
     \<Rightarrow> (DroneRunSimulationResult \<times> nat) option" where
  "runDroneSimulation fmt rnd k now sessionId args =
     (let (delay, k1) = randomDelay rnd k 2000 4000;
          duration = number_or (arg_duration_seconds args) 30;
          (runId, k2) = generateId fmt rnd k1 now ''flight_'';
          dronePhysics =
            DEFAULT_DRONE_PHYSICS
              \<lparr>wind_speed := (case arg_wind_speed args of
                                None \<Rightarrow> wind_speed DEFAULT_DRONE_PHYSICS | Some w \<Rightarrow> w),
               airspace_condition :=
                 string_or (arg_airspace_condition args) (airspace_condition DEFAULT_DRONE_PHYSICS)\<rparr>
      in case generateDroneTelemetryStream rnd k2 duration dronePhysics 50 of
           None \<Rightarrow> None
         | Some (telemetry, k3) \<Rightarrow>
             (let metrics = analyzeDroneTelemetry telemetry;
                  flightPath = analyzeDroneFlightPath telemetry
              in case generateDroneSimulationEvents fmt rnd k3 telemetry dronePhysics of
                   None \<Rightarrow> None
                 | Some (events, k4) \<Rightarrow>
                     (let has_failed = shouldDroneSimulationFail events;
                          (u, k5) = Math_random rnd k4
                      in Some (\<lparr>flight_run_id = runId,
                                flight_status = (if has_failed then failed else completed),
                                flight_video_url = R2_VIDEO_BASE @ ''/uav_scenes.mp4'',
                                flight_duration_actual = duration + u * 0.5,
                                flight_metrics = metrics,
                                flight_path = flightPath\<rparr>, k5))))"

text \<open>The test \<open>isDrone\<close> of \<open>runSimulation\<close> on \<open>args.robot_type\<close>.\<close>

definition is_drone_type :: "string option \<Rightarrow> bool" where
  "is_drone_type robot_type =
     (let robotType = toLowerCase (string_or robot_type [])
      in str_includes robotType ''drone'' \<or> str_includes robotType ''uav''
         \<or> str_includes robotType ''quadcopter'' \<or> str_includes robotType ''aerial'')"

text \<open>
  The part of \<open>runSimulation\<close> for a ground robot, after the dispatch on \<open>isDrone\<close>:
  the result, the store with the run added, and the index of the next draw; \<open>None\<close>
  when the event generator does not return. The run record takes \<open>session.physics\<close>
  and \<open>session.motors\<close> as they are.
\<close>

definition runGroundSimulation ::
  "number_text \<Rightarrow> random_source \<Rightarrow> nat \<Rightarrow> real \<Rightarrow> string \<Rightarrow> run_args \<Rightarrow> store
     \<Rightarrow> (RunSimulationResult \<times> store \<times> nat) option" where
  "runGroundSimulation fmt rnd k now sessionId args st =
     (let (delay, k1) = randomDelay rnd k 2000 4500;
          (session, st1) = getOrCreate now sessionId st;
          duration = number_or (arg_duration_seconds args) 5;
          (runId, k2) = generateId fmt rnd k1 now ''sim_'';
          (telemetry, k3) =
            generateTelemetryStream rnd k2 duration (physics_heap st1 (session_physics session))
              (motors_heap st1 (session_motors session)) 50;
          metrics = analyzeTelemetry telemetry
      in case generateSimulationEvents fmt rnd k3 telemetry
                (physics_heap st1 (session_physics session)) of
           None \<Rightarrow> None
         | Some (events, k4) \<Rightarrow>
             (let has_failed = shouldSimulationFail events;
                  robotTypeForVideo = toLowerCase (string_or (arg_robot_type args) ''hexapod'');
                  r2VideoUrl = getR2VideoUrl robotTypeForVideo;
                  videoUrl = (case r2VideoUrl of
                                Some url \<Rightarrow> url
                              | None \<Rightarrow> ''https://picsum.photos/800/450?grayscale&random='' @ runId);
                  (u, k5) = Math_random rnd k4;
                  run = \<lparr>run_id = runId,
                         status = (if has_failed then failed else completed),
                         started_at = now - delay,
                         completed_at = Some now,
                         duration_requested = duration,
                         duration_actual = Some (duration + u * 0.5),
                         physics_config = session_physics session,
                         motor_configs = session_motors session,
                         run_telemetry = telemetry,
                         run_events = events,
                         run_metrics = Some metrics,
                         video_url = r2VideoUrl\<rparr>;
                  st2 = addRun now sessionId run st1
              in Some (\<lparr>result_run_id = runId,
                        result_status = (if has_failed then failed else completed),
                        result_video_url = videoUrl,
                        result_duration_actual = duration + u * 0.5,
                        result_metrics = metrics\<rparr>, st2, k5)))"

text \<open>\<open>runSimulation\<close>: a drone run leaves the store as it is.\<close>

definition runSimulation ::
  "number_text \<Rightarrow> random_source \<Rightarrow> nat \<Rightarrow> real \<Rightarrow> string \<Rightarrow> run_args \<Rightarrow> store
     \<Rightarrow> ((RunSimulationResult + DroneRunSimulationResult) \<times> store \<times> nat) option" where
  "runSimulation fmt rnd k now sessionId args st =
     (if is_drone_type (arg_robot_type args) then
        map_option (\<lambda>r. (Inr (fst r), st, snd r)) (runDroneSimulation fmt rnd k now sessionId args)
      else
        map_option (\<lambda>r. (Inl (fst r), snd r))
          (runGroundSimulation fmt rnd k now sessionId args st))"

section \<open>Reading the store (state.ts)\<close>

text \<open>\<open>get\<close> refreshes \<open>last_accessed\<close> of a session that exists.\<close>

definition get_session :: "real \<Rightarrow> string \<Rightarrow> store \<Rightarrow> SessionState option \<times> store" where
  "get_session now sessionId st =
     (case sessions st sessionId of
        None \<Rightarrow> (None, st)
      | Some session \<Rightarrow>
          (let session1 = session\<lparr>last_accessed := now\<rparr>
           in (Some session1, st\<lparr>sessions := (sessions st)(sessionId \<mapsto> session1)\<rparr>)))"

text \<open>\<open>session?.current_run || session?.runs[session.runs.length - 1]\<close>.\<close>

definition getLatestRun :: "real \<Rightarrow> string \<Rightarrow> store \<Rightarrow> SimulationRun option \<times> store" where
  "getLatestRun now sessionId st =
     (let (session, st1) = get_session now sessionId st
      in (case session of
            None \<Rightarrow> None
          | Some s \<Rightarrow>
              (case current_run s of
                 Some run \<Rightarrow> Some run
               | None \<Rightarrow> nth_opt (runs s) (length (runs s) - 1)),
          st1))"

text \<open>\<open>getOrCreate(sessionId).motors.get(jointId)\<close>, without the refresh.\<close>

definition session_motor :: "store \<Rightarrow> string \<Rightarrow> string \<Rightarrow> MotorParams option" where
  "session_motor st sessionId jointId =
     (case sessions st sessionId of
        None \<Rightarrow> None
      | Some session \<Rightarrow> motors_heap st (session_motors session) jointId)"

section \<open>Inputs of the examples\<close>

text \<open>A random source whose every draw is \<open>1/2\<close>, and a session with no motor map entry.\<close>

definition half_draws :: random_source where
  "half_draws k = 1 / 2"

definition no_motors :: "string \<rightharpoonup> MotorParams" where
  "no_motors jointId = None"

definition plain_text :: number_text where
  "plain_text = \<lparr>toFixed = (\<lambda>x k. ''0''), toString = (\<lambda>x. ''0''), toString36 = (\<lambda>x. ''0.abcdef'')\<rparr>"

text \<open>
  The arguments \<open>{ joint_id: 'leg_1_coxa', pid_p: v }\<close> of \<open>update_motor_params\<close>,
  the arguments \<open>{ gravity: 5 }\<close> of \<open>configure_physics\<close> and the arguments \<open>{}\<close> of
  \<open>run_simulation\<close>.
\<close>

definition pid_p_only :: "real \<Rightarrow> motor_args" where
  "pid_p_only v =
     \<lparr>arg_joint_id = Some ''leg_1_coxa'', arg_torque_limit = None, arg_pid_p = Some v,
      arg_pid_i = None, arg_pid_d = None\<rparr>"

definition gravity_only :: configure_args where
  "gravity_only = \<lparr>arg_gravity = Some 5, arg_friction_coefficient = None, arg_terrain_type = None\<rparr>"

definition no_run_args :: run_args where
  "no_run_args =
     \<lparr>arg_duration_seconds = None, arg_robot_type = None, arg_wind_speed = None,
      arg_airspace_condition = None\<rparr>"

text \<open>
  A frame with the given timestamp, pitch and temperature, whose only contact slips or
  not. \<open>crowded_frames\<close> are ten frames: five hot frames that slip, then a frame with a
  pitch of 35 degrees. \<open>tilted_frames\<close> are ten frames whose second has that pitch.
\<close>

definition example_frame :: "real \<Rightarrow> real \<Rightarrow> real \<Rightarrow> bool \<Rightarrow> TelemetryFrame" where
  "example_frame ts p temp slip =
     \<lparr>timestamp = ts, joint_positions = [], joint_velocities = [], joint_torques = [],
      imu = \<lparr>pitch = p, roll = 0, yaw = 0, accel_x = 0, accel_y = 0, accel_z = 9.81\<rparr>,
      power = \<lparr>voltage = Some 24, current = Some 2, temperature = temp\<rparr>,
      contacts = [\<lparr>leg_id = ''leg_1'', in_contact = True, force = 8, slip_detected = slip\<rparr>]\<rparr>"

definition crowded_frames :: "TelemetryFrame list" where
  "crowded_frames =
     [example_frame 0 0 35 False,
      example_frame 20 0 60 True, example_frame 40 0 60 True, example_frame 60 0 60 True,
      example_frame 80 0 60 True, example_frame 100 0 60 True,
      example_frame 120 35 35 False,
      example_frame 140 0 35 False, example_frame 160 0 35 False, example_frame 180 0 35 False]"

definition tilted_frames :: "TelemetryFrame list" where
  "tilted_frames =
     [example_frame 0 0 35 False, example_frame 20 35 35 False,
      example_frame 40 0 35 False, example_frame 60 0 35 False, example_frame 80 0 35 False,
      example_frame 100 0 35 False, example_frame 120 0 35 False, example_frame 140 0 35 False,
      example_frame 160 0 35 False, example_frame 180 0 35 False]"

section \<open>Degenerate input to the analyzers\<close>

text \<open>
  C10. On an empty frame list \<open>analyzeTelemetry\<close> and \<open>analyzeDroneTelemetry\<close> return
  the record with every field 0, and \<open>analyzeDroneFlightPath\<close> returns the record with
  every field 0 on a list of fewer than two frames. The functions have no branch that
  throws, and the divisions by the number of frames are in the other branch.
\<close>

theorem analyzers_degenerate_input:
  "analyzeTelemetry [] =
     \<lparr>stability_score = 0, efficiency_score = Some 0, gait_symmetry = 0,
      max_pitch_deviation = 0, max_roll_deviation = 0, slip_events = 0,
      total_energy_consumed = Some 0, avg_joint_temperature = 0\<rparr>
   \<and> analyzeDroneTelemetry [] =
     \<lparr>hover_accuracy = 0, altitude_stability = 0, battery_efficiency = 0,
      wind_compensation_events = 0, max_altitude_deviation = 0, avg_rotor_rpm = 0,
      gps_quality_avg = 0\<rparr>
   \<and> (\<forall>frames. length frames < 2 \<longrightarrow>
        analyzeDroneFlightPath frames =
          \<lparr>waypoints_completed = 0, total_distance = 0, max_speed = 0, avg_speed = 0\<rparr>)"
  by (simp add: analyzeTelemetry_def analyzeDroneTelemetry_def analyzeDroneFlightPath_def)

text \<open>The third part at a concrete list of one frame.\<close>

theorem analyzers_degenerate_input_witness:
  "length [\<lparr>d_timestamp = 0, position = \<lparr>lat = 37.7749, lon = - 122.4194, alt = 0\<rparr>,
             velocity = \<lparr>vx = 0, vy = 0, vz = 0\<rparr>,
             attitude = \<lparr>att_pitch = 0, att_roll = 0, att_yaw = 0\<rparr>,
             rotor_speeds = [1000, 1000, 1000, 1000],
             battery = \<lparr>bat_voltage = 16.8, bat_current = 8.3, remaining = 100\<rparr>,
             gps_quality = 85, signal_strength = - 45\<rparr>] < 2
   \<and> analyzeDroneFlightPath
        [\<lparr>d_timestamp = 0, position = \<lparr>lat = 37.7749, lon = - 122.4194, alt = 0\<rparr>,
          velocity = \<lparr>vx = 0, vy = 0, vz = 0\<rparr>,
          attitude = \<lparr>att_pitch = 0, att_roll = 0, att_yaw = 0\<rparr>,
          rotor_speeds = [1000, 1000, 1000, 1000],
          battery = \<lparr>bat_voltage = 16.8, bat_current = 8.3, remaining = 100\<rparr>,
          gps_quality = 85, signal_strength = - 45\<rparr>]
      = \<lparr>waypoints_completed = 0, total_distance = 0, max_speed = 0, avg_speed = 0\<rparr>"
  using analyzers_degenerate_input by simp

section \<open>Recommendations\<close>

lemma set_in_order_distinct: "distinct seen \<Longrightarrow> distinct (set_in_order seen xs)"
  by (induction xs arbitrary: seen) auto

text \<open>
  C6, as the code has it. Both recommendation generators return a list without
  duplicates of at most five entries. The bound is five for the aerial generator as
  well: \<open>generateDroneRecommendations\<close> ends with \<open>slice(0, 5)\<close>.
\<close>

theorem recommendations_distinct_at_most_five:
  "distinct (generateRecommendations fmt events physics)
   \<and> length (generateRecommendations fmt events physics) \<le> 5
   \<and> distinct (generateDroneRecommendations drone_events drone_physics)
   \<and> length (generateDroneRecommendations drone_events drone_physics) \<le> 5"
  by (simp add: generateRecommendations_def generateDroneRecommendations_def
        set_in_order_distinct)

text \<open>
  C6 as stated fails: three drone events of different types give six distinct
  recommendations, of which five are returned.
\<close>

theorem drone_recommendations_counterexample:
  "\<not> length (generateDroneRecommendations
        [\<lparr>ev_timestamp = 0, ev_type = ''motor_failure'', severity = Warning,
          message = ''Rotor variance detected'', data = None\<rparr>,
         \<lparr>ev_timestamp = 20, ev_type = ''gps_loss'', severity = Warning,
          message = ''GPS quality degraded'', data = None\<rparr>,
         \<lparr>ev_timestamp = 40, ev_type = ''low_battery'', severity = Warning,
          message = ''Battery critical'', data = None\<rparr>]
        DEFAULT_DRONE_PHYSICS) \<le> 4"
  by (simp add: generateDroneRecommendations_def drone_recommendations_for_def)

section \<open>Rounding to doubles\<close>

lemma to_double_zero: "to_double 0 = 0"
  by (simp add: to_double_def)


lemma round_half_even_of_int: "round_half_even (of_int n) = n"
  by (simp add: round_half_even_def)


lemma to_double_of_int:
  assumes "\<bar>n\<bar> < 2 ^ 53"
  shows "to_double (of_int n) = of_int n"
proof (cases "n = 0")
  case True
  then show ?thesis by (simp add: to_double_zero)
next
  case False
  define x :: real where "x = of_int n"
  have x1: "1 \<le> \<bar>x\<bar>" using False unfolding x_def by (simp flip: of_int_abs)
  have x2: "\<bar>x\<bar> < 2 ^ 53" using assms unfolding x_def by (simp flip: of_int_abs)
  define e where "e = \<lfloor>log 2 \<bar>x\<bar>\<rfloor>"
  have "0 \<le> log 2 \<bar>x\<bar>" using x1 by simp
  then have e0: "0 \<le> e" unfolding e_def by simp
  have l: "log 2 ((2::real) ^ 53) = real 53" by (rule log_pow_cancel) simp_all
  have "log 2 \<bar>x\<bar> < log 2 (2 ^ 53)"
    by (rule iffD2[OF log_less_cancel_iff]) (use x1 x2 in auto)
  then have "log 2 \<bar>x\<bar> < of_int 53" unfolding l by simp
  then have e53: "e < 53" unfolding e_def by (simp only: floor_less_iff)
  define k where "k = nat (52 - e)"
  have ke: "of_int e - 52 = - real k" using e0 e53 unfolding k_def by simp
  define u :: real where "u = 2 powr (of_int e - 52)"
  have u: "u = 1 / 2 ^ k" unfolding u_def ke by (simp add: powr_minus powr_realpow field_simps)
  have m: "max e (- 1022) = e" using e0 by simp
  have "x / u = of_int (n * 2 ^ k)" unfolding u x_def by simp
  then have r: "round_half_even (x / u) = n * 2 ^ k" by (simp only: round_half_even_of_int)
  have "to_double x = of_int (round_half_even (x / u)) * u"
    using x1 m by (auto simp add: to_double_def Let_def e_def[symmetric] u_def)
  also have "\<dots> = of_int (n * 2 ^ k) * u" by (simp only: r)
  also have "\<dots> = x" unfolding u x_def by simp
  finally show ?thesis unfolding x_def .
qed

lemma to_double_of_nat: "n < 2 ^ 53 \<Longrightarrow> to_double (real n) = real n"
  using to_double_of_int[of "int n"] by simp



















section \<open>The ground telemetry generator\<close>

lemma frame_step_frames:
  "gen_frames (frame_step rnd physics motors dt tp i s) =
     gen_frames s @ [last (gen_frames (frame_step rnd physics motors dt tp i s))]"
  "timestamp (last (gen_frames (frame_step rnd physics motors dt tp i s))) =
     Math_round (to_double (to_double (real i * dt) * 1000))"
  by (simp_all add: frame_step_def Let_def split_beta)

lemma fold_frame_step_timestamps:
  "map timestamp (gen_frames (fold (frame_step rnd physics motors dt tp) [a ..< b] s)) =
     map timestamp (gen_frames s)
       @ map (\<lambda>i. Math_round (to_double (to_double (real i * dt) * 1000))) [a ..< b]"
proof (induction b)
  case 0
  show ?case by simp
next
  case (Suc b)
  show ?case
  proof (cases "a \<le> b")
    case True
    let ?s = "fold (frame_step rnd physics motors dt tp) [a ..< b] s"
    have "map timestamp (gen_frames (frame_step rnd physics motors dt tp b ?s)) =
            map timestamp (gen_frames ?s)
              @ [Math_round (to_double (to_double (real b * dt) * 1000))]"
      by (subst frame_step_frames(1)) (simp add: frame_step_frames(2))
    with True Suc show ?thesis by simp
  next
    case False
    then show ?thesis by simp
  qed
qed

lemma generate_timestamps:
  "map timestamp (fst (generateTelemetryStream rnd k d physics motors r)) =
     map (\<lambda>i. Math_round (to_double (to_double (real i * to_double (1 / r)) * 1000)))
       [0 ..< nat \<lfloor>to_double (d * r)\<rfloor>]"
  by (simp add: generateTelemetryStream_def Let_def split_beta fold_frame_step_timestamps)

lemma generate_length:
  "length (fst (generateTelemetryStream rnd k d physics motors r)) = nat \<lfloor>to_double (d * r)\<rfloor>"
  using arg_cong[OF generate_timestamps[of rnd k d physics motors r], of length] by simp







section \<open>The integral gain\<close>

lemma motor_for_cong:
  assumes "\<And>j. rel_option (\<lambda>m m'. m' = m\<lparr>pid_i := pid_i m'\<rparr>) (motors j) (motors' j)"
  shows "motor_for motors = motor_for motors'"
proof
  fix j
  show "motor_for motors j = motor_for motors' j"
  proof (cases "motors j")
    case None
    with assms[of j] have "motors' j = None" by (cases "motors' j") simp_all
    with None show ?thesis by (simp add: motor_for_def)
  next
    case (Some m)
    with assms[of j] obtain m' where m': "motors' j = Some m'" "m' = m\<lparr>pid_i := pid_i m'\<rparr>"
      by (cases "motors' j") simp_all
    from m'(2) have "pid_p m' = pid_p m \<and> pid_d m' = pid_d m \<and> torque_limit m' = torque_limit m"
      by (cases m, cases m') simp
    with Some m'(1) show ?thesis by (simp add: motor_for_def)
  qed
qed

text \<open>
  C8. Two motor maps with the same keys whose entries differ at most in \<open>pid_i\<close> give
  the same frames and leave the random source at the same draw, for the same duration,
  physics, sample rate and draws.
\<close>

theorem telemetry_independent_of_pid_i:
  assumes "\<And>j. rel_option (\<lambda>m m'. m' = m\<lparr>pid_i := pid_i m'\<rparr>) (motors j) (motors' j)"
  shows "generateTelemetryStream rnd k d physics motors r
           = generateTelemetryStream rnd k d physics motors' r"
proof -
  have m: "motor_for motors = motor_for motors'" using assms by (rule motor_for_cong)
  have j: "joint_step rnd motors = joint_step rnd motors'"
    by (intro ext) (simp add: joint_step_def m)
  have f: "frame_step rnd physics motors = frame_step rnd physics motors'"
    by (intro ext) (simp add: frame_step_def j)
  show ?thesis by (simp add: generateTelemetryStream_def f)
qed

theorem telemetry_independent_of_pid_i_witness:
  "pid_i (default_motor ''leg_1_coxa'') \<noteq> pid_i ((default_motor ''leg_1_coxa'')\<lparr>pid_i := Some 7\<rparr>)
   \<and> generateTelemetryStream half_draws 0 1 DEFAULT_PHYSICS
         (no_motors(''leg_1_coxa'' \<mapsto> default_motor ''leg_1_coxa'')) 50
     = generateTelemetryStream half_draws 0 1 DEFAULT_PHYSICS
         (no_motors(''leg_1_coxa'' \<mapsto> (default_motor ''leg_1_coxa'')\<lparr>pid_i := Some 7\<rparr>)) 50"
proof -
  let ?m1 = "no_motors(''leg_1_coxa'' \<mapsto> default_motor ''leg_1_coxa'')"
  let ?m2 = "no_motors(''leg_1_coxa'' \<mapsto> (default_motor ''leg_1_coxa'')\<lparr>pid_i := Some 7\<rparr>)"
  have h: "\<And>j. rel_option (\<lambda>m m'. m' = m\<lparr>pid_i := pid_i m'\<rparr>) (?m1 j) (?m2 j)"
    by (simp add: no_motors_def)
  have "generateTelemetryStream half_draws 0 1 DEFAULT_PHYSICS ?m1 50
          = generateTelemetryStream half_draws 0 1 DEFAULT_PHYSICS ?m2 50"
    using h by (rule telemetry_independent_of_pid_i)
  then show ?thesis by (simp add: default_motor_def)
qed


section \<open>The sampling loop of the event generators\<close>

lemma sampling_loop_stuck:
  assumes "sampling_loop fmt rnd frames physics sampleRate i st = Some y"
  shows "\<not> (sampleRate = 0 \<and> i < length frames)"
proof (rule sampling_loop.raw_induct
        [where P = "\<lambda>fmt rnd frames physics sampleRate i st y. \<not> (sampleRate = 0 \<and> i < length frames)",
         OF _ assms], goal_cases)
  case (1 loop f r fs p sr j s z)
  show ?case
  proof
    assume a: "sr = 0 \<and> j < length fs"
    with 1(2) have "loop f r fs p sr (j + sr) (sample_frame f r fs p j s) = Some z" by simp
    from 1(1)[OF this] a show False by simp
  qed
qed

lemma drone_sampling_loop_stuck:
  assumes "drone_sampling_loop fmt rnd frames physics sampleRate i st = Some y"
  shows "\<not> (sampleRate = 0 \<and> i < length frames)"
proof (rule drone_sampling_loop.raw_induct
        [where P = "\<lambda>fmt rnd frames physics sampleRate i st y. \<not> (sampleRate = 0 \<and> i < length frames)",
         OF _ assms], goal_cases)
  case (1 loop f r fs p sr j s z)
  show ?case
  proof
    assume a: "sr = 0 \<and> j < length fs"
    with 1(2) have "loop f r fs p sr (j + sr) (sample_drone_frame f r fs p j s) = Some z" by simp
    from 1(1)[OF this] a show False by simp
  qed
qed

lemma generateSimulationEvents_hangs:
  assumes "0 < length frames" and "length frames < 10"
  shows "generateSimulationEvents fmt rnd k frames physics = None"
proof (cases "sampling_loop fmt rnd frames physics 0 0 ([], k)")
  case None
  with assms show ?thesis by (simp add: generateSimulationEvents_def)
next
  case (Some y)
  from sampling_loop_stuck[OF this] assms show ?thesis by simp
qed

lemma generateDroneSimulationEvents_hangs:
  assumes "0 < length frames" and "length frames < 10"
  shows "generateDroneSimulationEvents fmt rnd k frames physics = None"
proof (cases "drone_sampling_loop fmt rnd frames physics 0 0 ([], k)")
  case None
  with assms show ?thesis by (simp add: generateDroneSimulationEvents_def)
next
  case (Some y)
  from drone_sampling_loop_stuck[OF this] assms show ?thesis by simp
qed

text \<open>
  C2 fails on the code. For a list of one to nine frames \<open>sampleRate\<close> is
  \<open>Math.floor(frames.length / 10) = 0\<close>, the loop starts at \<open>i = 0\<close> and \<open>i += 0\<close> never
  ends it: neither generator returns, for any frames, physics and random draws.
\<close>

theorem event_generators_hang_on_short_input:
  "generateSimulationEvents fmt rnd k [f1] physics = None
   \<and> generateSimulationEvents fmt rnd k [f1, f2, f3, f4, f5, f6, f7, f8, f9] physics = None
   \<and> generateDroneSimulationEvents fmt rnd k [g1] drone_physics = None
   \<and> generateDroneSimulationEvents fmt rnd k [g1, g2, g3, g4, g5, g6, g7, g8, g9] drone_physics = None"
  by (simp add: generateSimulationEvents_hangs generateDroneSimulationEvents_hangs)

section \<open>Runs of the simulation service\<close>

lemma sampling_loop_returns:
  "0 < sampleRate \<Longrightarrow> \<exists>st'. sampling_loop fmt rnd frames physics sampleRate i st = Some st'"
proof (induction "length frames - i" arbitrary: i st rule: less_induct)
  case less
  show ?case
  proof (cases "i < length frames")
    case True
    have "length frames - (i + sampleRate) < length frames - i" using True less.prems by simp
    from less.hyps[OF this less.prems] obtain st' where
      "sampling_loop fmt rnd frames physics sampleRate (i + sampleRate)
         (sample_frame fmt rnd frames physics i st) = Some st'" by blast
    with True show ?thesis by (subst sampling_loop.simps) simp
  next
    case False
    then show ?thesis by (subst sampling_loop.simps) simp
  qed
qed

lemma generateSimulationEvents_returns:
  assumes "length frames = 0 \<or> 10 \<le> length frames"
  shows "\<exists>ev k'. generateSimulationEvents fmt rnd k frames physics = Some (ev, k') \<and> length ev \<le> 10"
proof (cases "length frames = 0")
  case True
  then have "sampling_loop fmt rnd frames physics 0 0 ([], k) = Some ([], k)"
    by (subst sampling_loop.simps) simp
  with True show ?thesis by (simp add: generateSimulationEvents_def)
next
  case False
  with assms have "0 < length frames div 10" by (simp add: div_greater_zero_iff)
  from sampling_loop_returns[OF this] obtain st' where
    "sampling_loop fmt rnd frames physics (length frames div 10) (length frames div 10) ([], k) = Some st'"
    by blast
  then show ?thesis by (simp add: generateSimulationEvents_def)
qed

lemma is_drone_type_None: "\<not> is_drone_type None"
  by (simp add: is_drone_type_def string_or_def toLowerCase_def)

lemma runGroundSimulation_returns:
  assumes "nat \<lfloor>to_double (number_or (arg_duration_seconds args) 5 * 50)\<rfloor> = 0
         \<or> 10 \<le> nat \<lfloor>to_double (number_or (arg_duration_seconds args) 5 * 50)\<rfloor>"
  shows "\<exists>res st' k'. runGroundSimulation fmt rnd k now sid args st = Some (res, st', k')"
proof -
  let ?st1 = "snd (getOrCreate now sid st)"
  let ?session = "fst (getOrCreate now sid st)"
  let ?k1 = "snd (randomDelay rnd k 2000 4500)"
  let ?k2 = "snd (generateId fmt rnd ?k1 now ''sim_'')"
  let ?gen = "generateTelemetryStream rnd ?k2 (number_or (arg_duration_seconds args) 5)
                (physics_heap ?st1 (session_physics ?session))
                (motors_heap ?st1 (session_motors ?session)) 50"
  have "length (fst ?gen) = 0 \<or> 10 \<le> length (fst ?gen)"
    using assms by (simp add: generate_length)
  from generateSimulationEvents_returns[OF this, of fmt rnd "snd ?gen" "physics_heap ?st1 (session_physics ?session)"]
  obtain ev k' where "generateSimulationEvents fmt rnd (snd ?gen) (fst ?gen)
                        (physics_heap ?st1 (session_physics ?session)) = Some (ev, k')" by blast
  then show ?thesis
    by (simp add: runGroundSimulation_def Let_def split_beta)
qed

lemma getOrCreate_session:
  "sessions (snd (getOrCreate now sid st)) sid = Some (fst (getOrCreate now sid st))"
  by (simp add: getOrCreate_def createDefaultSession_def Let_def split: option.splits)

lemma getOrCreate_existing:
  "sessions st sid = Some s \<Longrightarrow>
     getOrCreate now sid st = (s\<lparr>last_accessed := now\<rparr>, st\<lparr>sessions := (sessions st)(sid \<mapsto> s\<lparr>last_accessed := now\<rparr>)\<rparr>)"
  by (simp add: getOrCreate_def Let_def)

lemma addRun_stored:
  assumes "sessions st1 sid = Some s"
  shows "\<exists>s'. sessions (addRun now sid run st1) sid = Some s' \<and> current_run s' = Some run
           \<and> session_motors s' = session_motors s \<and> session_physics s' = session_physics s
           \<and> motors_heap (addRun now sid run st1) = motors_heap st1
           \<and> physics_heap (addRun now sid run st1) = physics_heap st1
           \<and> next_ref (addRun now sid run st1) = next_ref st1"
  using assms by (simp add: addRun_def getOrCreate_existing Let_def)

lemma runGroundSimulation_stored_run:
  assumes "runGroundSimulation fmt rnd k now sid args st = Some (res, st', k')"
  shows "\<exists>session run.
           sessions st' sid = Some session \<and> current_run session = Some run
           \<and> motor_configs run = session_motors session
           \<and> physics_config run = session_physics session
           \<and> session_motors session = session_motors (fst (getOrCreate now sid st))
           \<and> session_physics session = session_physics (fst (getOrCreate now sid st))
           \<and> motors_heap st' = motors_heap (snd (getOrCreate now sid st))
           \<and> physics_heap st' = physics_heap (snd (getOrCreate now sid st))
           \<and> next_ref st' = next_ref (snd (getOrCreate now sid st))
           \<and> run_id run = result_run_id res
           \<and> status run = (if shouldSimulationFail (run_events run) then failed else completed)
           \<and> result_status res = status run"
proof -
  let ?st1 = "snd (getOrCreate now sid st)"
  let ?session = "fst (getOrCreate now sid st)"
  let ?k1 = "snd (randomDelay rnd k 2000 4500)"
  let ?k2 = "snd (generateId fmt rnd ?k1 now ''sim_'')"
  let ?gen = "generateTelemetryStream rnd ?k2 (number_or (arg_duration_seconds args) 5)
                (physics_heap ?st1 (session_physics ?session))
                (motors_heap ?st1 (session_motors ?session)) 50"
  obtain ev k4 where ev: "generateSimulationEvents fmt rnd (snd ?gen) (fst ?gen)
                        (physics_heap ?st1 (session_physics ?session)) = Some (ev, k4)"
    using assms by (cases "generateSimulationEvents fmt rnd (snd ?gen) (fst ?gen)
                        (physics_heap ?st1 (session_physics ?session))")
      (auto simp: runGroundSimulation_def Let_def split_beta)
  define run where "run = \<lparr>run_id = fst (generateId fmt rnd ?k1 now ''sim_''),
                         status = (if shouldSimulationFail ev then failed else completed),
                         started_at = now - fst (randomDelay rnd k 2000 4500),
                         completed_at = Some now,
                         duration_requested = number_or (arg_duration_seconds args) 5,
                         duration_actual = Some (number_or (arg_duration_seconds args) 5 + fst (Math_random rnd k4) * 0.5),
                         physics_config = session_physics ?session,
                         motor_configs = session_motors ?session,
                         run_telemetry = fst ?gen,
                         run_events = ev,
                         run_metrics = Some (analyzeTelemetry (fst ?gen)),
                         video_url = getR2VideoUrl (toLowerCase (string_or (arg_robot_type args) ''hexapod''))\<rparr>"
  have st': "st' = addRun now sid run ?st1"
    and res: "result_status res = (if shouldSimulationFail ev then failed else completed)"
             "result_run_id res = fst (generateId fmt rnd ?k1 now ''sim_'')"
    using assms ev by (auto simp: runGroundSimulation_def Let_def split_beta run_def)
  from addRun_stored[where ?st1.0 = "?st1" and sid = sid and s = "?session" and now = now and run = run, OF getOrCreate_session]
  obtain s' where s': "sessions (addRun now sid run ?st1) sid = Some s'" "current_run s' = Some run"
     "session_motors s' = session_motors ?session" "session_physics s' = session_physics ?session"
     "motors_heap (addRun now sid run ?st1) = motors_heap ?st1"
     "physics_heap (addRun now sid run ?st1) = physics_heap ?st1"
     "next_ref (addRun now sid run ?st1) = next_ref ?st1" by blast
  show ?thesis
    apply (rule exI[of _ s'], rule exI[of _ run])
    using s' st' res by (simp add: run_def)
qed

section \<open>Failed runs and rollover events\<close>

lemma ground_checks_append:
  "\<exists>more. ground_checks fmt frame events = events @ more \<and> length more \<le> 4"
  by (auto simp: ground_checks_def Let_def split: option.splits)

lemma ground_checks_rollover:
  assumes "\<bar>pitch (imu frame)\<bar> > 30 \<or> \<bar>roll (imu frame)\<bar> > 25"
  shows "\<exists>n. length events \<le> n \<and> n < length events + 3 \<and> n < length (ground_checks fmt frame events)
           \<and> ev_type (ground_checks fmt frame events ! n) = ''rollover''
           \<and> severity (ground_checks fmt frame events ! n) = Critical
           \<and> ev_timestamp (ground_checks fmt frame events ! n) = timestamp frame"
proof -
  let ?n = "length events + (case find slip_detected (contacts frame) of None \<Rightarrow> 0 | Some c \<Rightarrow> 1)
              + (if \<bar>pitch (imu frame)\<bar> > 20 then 1 else 0)"
  show ?thesis
    by (rule exI[of _ ?n]) (use assms in \<open>auto simp: ground_checks_def Let_def nth_append split: option.splits\<close>)
qed

lemma sample_frame_append:
  "\<exists>more. fst (sample_frame fmt rnd frames physics i st) = ground_checks fmt (frames ! i) (fst st) @ more
     \<and> length more \<le> 1"
  by (auto simp: sample_frame_def Let_def split_beta split: option.splits)

lemma sample_frame_prefix:
  "\<exists>more. fst (sample_frame fmt rnd frames physics i st) = fst st @ more \<and> length more \<le> 5"
proof -
  obtain m1 where m1: "ground_checks fmt (frames ! i) (fst st) = fst st @ m1" "length m1 \<le> 4"
    using ground_checks_append by blast
  obtain m2 where m2: "fst (sample_frame fmt rnd frames physics i st)
                         = ground_checks fmt (frames ! i) (fst st) @ m2" "length m2 \<le> 1"
    using sample_frame_append by blast
  have "fst (sample_frame fmt rnd frames physics i st) = fst st @ (m1 @ m2)" "length (m1 @ m2) \<le> 5"
    using m1 m2 by simp_all
  then show ?thesis by blast
qed

lemma sampling_loop_prefix:
  assumes "0 < sampleRate"
    and "sampling_loop fmt rnd frames physics sampleRate i st = Some st'"
  shows "\<exists>more. fst st' = fst st @ more"
  using assms(2)
proof (induction "length frames - i" arbitrary: i st rule: less_induct)
  case less
  show ?case
  proof (cases "i < length frames")
    case True
    have d: "length frames - (i + sampleRate) < length frames - i" using True assms(1) by simp
    from less.prems True have
      "sampling_loop fmt rnd frames physics sampleRate (i + sampleRate)
         (sample_frame fmt rnd frames physics i st) = Some st'"
      by (subst (asm) sampling_loop.simps) simp
    from less.hyps[OF d this] obtain more where
      "fst st' = fst (sample_frame fmt rnd frames physics i st) @ more" by blast
    moreover obtain m0 where "fst (sample_frame fmt rnd frames physics i st) = fst st @ m0"
      using sample_frame_prefix by blast
    ultimately have "fst st' = fst st @ (m0 @ more)" by simp
    then show ?thesis by blast
  next
    case False
    with less.prems have "st' = st" by (subst (asm) sampling_loop.simps) simp
    then show ?thesis by simp
  qed
qed

lemma sampling_loop_rollover:
  assumes "0 < sampleRate"
    and "i = j + d * sampleRate"
    and "i < length frames"
    and "\<bar>pitch (imu (frames ! i))\<bar> > 30 \<or> \<bar>roll (imu (frames ! i))\<bar> > 25"
  shows "\<exists>all k' n. sampling_loop fmt rnd frames physics sampleRate j st = Some (all, k')
           \<and> length (fst st) \<le> n \<and> n < length (fst st) + 5 * d + 3 \<and> n < length all
           \<and> ev_type (all ! n) = ''rollover'' \<and> severity (all ! n) = Critical
           \<and> ev_timestamp (all ! n) = timestamp (frames ! i)"
  using assms(2)
proof (induction d arbitrary: j st)
  case 0
  then have ji: "j = i" by simp
  let ?st1 = "sample_frame fmt rnd frames physics i st"
  obtain st' where st': "sampling_loop fmt rnd frames physics sampleRate (i + sampleRate) ?st1 = Some st'"
    using sampling_loop_returns[OF assms(1)] by blast
  then have loop: "sampling_loop fmt rnd frames physics sampleRate i st = Some st'"
    using assms(3) by (subst sampling_loop.simps) simp
  obtain more where more: "fst st' = fst ?st1 @ more"
    using sampling_loop_prefix[OF assms(1) st'] by blast
  obtain m2 where m2: "fst ?st1 = ground_checks fmt (frames ! i) (fst st) @ m2"
    using sample_frame_append by blast
  obtain n where n: "length (fst st) \<le> n" "n < length (fst st) + 3"
      "n < length (ground_checks fmt (frames ! i) (fst st))"
      "ev_type (ground_checks fmt (frames ! i) (fst st) ! n) = ''rollover''"
      "severity (ground_checks fmt (frames ! i) (fst st) ! n) = Critical"
      "ev_timestamp (ground_checks fmt (frames ! i) (fst st) ! n) = timestamp (frames ! i)"
    using ground_checks_rollover[OF assms(4)] by blast
  have nth: "fst st' ! n = ground_checks fmt (frames ! i) (fst st) ! n"
    using n(3) by (simp add: more m2 nth_append)
  have len: "n < length (fst st')" using n(3) by (simp add: more m2)
  show ?case
    apply (rule exI[of _ "fst st'"], rule exI[of _ "snd st'"], rule exI[of _ n])
    using loop n nth len ji by simp
next
  case (Suc d)
  then have lt: "j < length frames" and step: "i = (j + sampleRate) + d * sampleRate"
    using assms(3) by simp_all
  let ?st1 = "sample_frame fmt rnd frames physics j st"
  from Suc.IH[OF step, of ?st1] obtain all k' n where
    r: "sampling_loop fmt rnd frames physics sampleRate (j + sampleRate) ?st1 = Some (all, k')"
       "length (fst ?st1) \<le> n" "n < length (fst ?st1) + 5 * d + 3" "n < length all"
       "ev_type (all ! n) = ''rollover''" "severity (all ! n) = Critical"
       "ev_timestamp (all ! n) = timestamp (frames ! i)"
    by blast
  have loop: "sampling_loop fmt rnd frames physics sampleRate j st = Some (all, k')"
    using r(1) lt by (subst sampling_loop.simps) simp
  obtain m0 where m0: "fst ?st1 = fst st @ m0" "length m0 \<le> 5"
    using sample_frame_prefix by blast
  have "length (fst st) \<le> n" "n < length (fst st) + 5 * Suc d + 3"
    using r(2,3) m0 by simp_all
  with loop r(4-7) show ?case by blast
qed

lemma shouldSimulationFail_iff:
  "shouldSimulationFail events \<longleftrightarrow> (\<exists>e\<in>set events. severity e = Critical)"
  by (simp add: shouldSimulationFail_def Let_def filter_empty_conv)

text \<open>
  C4, as the code has it. A ground run that \<open>runSimulation\<close> stores has the status
  \<open>failed\<close> exactly when its event list holds an event of severity \<open>critical\<close>, which is
  what \<open>shouldSimulationFail\<close> tests. For a list of at least ten frames whose \<open>m\<close>-th
  sampled frame (index \<open>m * floor(length / 10)\<close>, \<open>m \<ge> 1\<close>) has a pitch beyond 30 or a roll
  beyond 25 degrees, the generator pushes an event of type \<open>rollover\<close> and severity
  \<open>critical\<close> with the timestamp of that frame, at a position below \<open>5 * m\<close> of its event
  list. It returns the first ten events: when the position is below ten (always so for
  the first two sampled frames) the event is returned and \<open>shouldSimulationFail\<close> holds
  of the result.
\<close>

theorem run_status_and_rollover:
  "(runSimulation fmt rnd k now sid args st = Some (Inl res, st', k') \<longrightarrow>
      (\<exists>session run. sessions st' sid = Some session \<and> current_run session = Some run
          \<and> run_id run = result_run_id res \<and> result_status res = status run
          \<and> (status run = failed \<longleftrightarrow> (\<exists>e\<in>set (run_events run). severity e = Critical))))
   \<and> (shouldSimulationFail events \<longleftrightarrow> (\<exists>e\<in>set events. severity e = Critical))
   \<and> (10 \<le> length frames \<and> 1 \<le> m \<and> m * (length frames div 10) < length frames
       \<and> (\<bar>pitch (imu (frames ! (m * (length frames div 10))))\<bar> > 30
            \<or> \<bar>roll (imu (frames ! (m * (length frames div 10))))\<bar> > 25) \<longrightarrow>
      (\<exists>all k2 n.
          sampling_loop fmt rnd frames physics (length frames div 10) (length frames div 10) ([], seed)
            = Some (all, k2)
          \<and> generateSimulationEvents fmt rnd seed frames physics = Some (take 10 all, k2)
          \<and> n < length all \<and> n < 5 * m
          \<and> ev_type (all ! n) = ''rollover'' \<and> severity (all ! n) = Critical
          \<and> ev_timestamp (all ! n) = timestamp (frames ! (m * (length frames div 10)))
          \<and> (n < 10 \<longrightarrow> take 10 all ! n = all ! n \<and> shouldSimulationFail (take 10 all))))"
proof (intro conjI impI)
  assume r: "runSimulation fmt rnd k now sid args st = Some (Inl res, st', k')"
  then have "runGroundSimulation fmt rnd k now sid args st = Some (res, st', k')"
    by (cases "is_drone_type (arg_robot_type args)") (auto simp: runSimulation_def)
  from runGroundSimulation_stored_run[OF this] obtain session run where
    s: "sessions st' sid = Some session" "current_run session = Some run"
       "run_id run = result_run_id res"
       "status run = (if shouldSimulationFail (run_events run) then failed else completed)"
       "result_status res = status run" by blast
  have "status run = failed \<longleftrightarrow> (\<exists>e\<in>set (run_events run). severity e = Critical)"
    using s(4) by (simp add: shouldSimulationFail_iff)
  with s show "\<exists>session run. sessions st' sid = Some session \<and> current_run session = Some run
          \<and> run_id run = result_run_id res \<and> result_status res = status run
          \<and> (status run = failed \<longleftrightarrow> (\<exists>e\<in>set (run_events run). severity e = Critical))"
    by blast
next
  show "shouldSimulationFail events \<longleftrightarrow> (\<exists>e\<in>set events. severity e = Critical)"
    by (rule shouldSimulationFail_iff)
next
  let ?s = "length frames div 10"
  assume a: "10 \<le> length frames \<and> 1 \<le> m \<and> m * ?s < length frames
       \<and> (\<bar>pitch (imu (frames ! (m * ?s)))\<bar> > 30 \<or> \<bar>roll (imu (frames ! (m * ?s)))\<bar> > 25)"
  then have pos: "0 < ?s" by (simp add: div_greater_zero_iff)
  have idx: "m * ?s = ?s + (m - 1) * ?s" using a by (cases m) simp_all
  from sampling_loop_rollover[OF pos idx, of frames fmt rnd physics "([], seed)"] a
  obtain all k2 n where
    r: "sampling_loop fmt rnd frames physics ?s ?s ([], seed) = Some (all, k2)"
       "n < 5 * (m - 1) + 3" "n < length all"
       "ev_type (all ! n) = ''rollover''" "severity (all ! n) = Critical"
       "ev_timestamp (all ! n) = timestamp (frames ! (m * ?s))"
    by auto
  have g: "generateSimulationEvents fmt rnd seed frames physics = Some (take 10 all, k2)"
    using r(1) by (simp add: generateSimulationEvents_def)
  have n5: "n < 5 * m" using r(2) a by (cases m) simp_all
  have t: "take 10 all ! n = all ! n \<and> shouldSimulationFail (take 10 all)" if "n < 10"
  proof -
    have "take 10 all ! n = all ! n" using that by simp
    moreover have "take 10 all ! n \<in> set (take 10 all)" using that r(3) by (intro nth_mem) simp
    ultimately show ?thesis using r(5) by (auto simp: shouldSimulationFail_iff)
  qed
  from r(1) g r(3) n5 r(4-6) t
  show "\<exists>all k2 n.
          sampling_loop fmt rnd frames physics ?s ?s ([], seed) = Some (all, k2)
          \<and> generateSimulationEvents fmt rnd seed frames physics = Some (take 10 all, k2)
          \<and> n < length all \<and> n < 5 * m
          \<and> ev_type (all ! n) = ''rollover'' \<and> severity (all ! n) = Critical
          \<and> ev_timestamp (all ! n) = timestamp (frames ! (m * ?s))
          \<and> (n < 10 \<longrightarrow> take 10 all ! n = all ! n \<and> shouldSimulationFail (take 10 all))"
    by blast
qed

theorem run_status_and_rollover_witness:
  "(\<exists>res st' k'.
      runSimulation plain_text half_draws 0 0 ''session'' no_run_args empty_store = Some (Inl res, st', k')
      \<and> (\<exists>session run. sessions st' ''session'' = Some session \<and> current_run session = Some run
            \<and> result_status res = status run
            \<and> (status run = failed \<longleftrightarrow> (\<exists>e\<in>set (run_events run). severity e = Critical))))
   \<and> 10 \<le> length tilted_frames
   \<and> 30 < \<bar>pitch (imu (tilted_frames ! (1 * (length tilted_frames div 10))))\<bar>
   \<and> (\<exists>all k2 n.
         generateSimulationEvents plain_text half_draws 0 tilted_frames DEFAULT_PHYSICS
           = Some (take 10 all, k2)
         \<and> n < 5 \<and> ev_type (all ! n) = ''rollover'' \<and> severity (all ! n) = Critical
         \<and> ev_timestamp (all ! n) = 20 \<and> shouldSimulationFail (take 10 all))"
proof -
  have "to_double (5 * 50) = 250" using to_double_of_nat[of 250] by simp
  then have "nat \<lfloor>to_double (number_or (arg_duration_seconds no_run_args) 5 * 50)\<rfloor> = 0
         \<or> 10 \<le> nat \<lfloor>to_double (number_or (arg_duration_seconds no_run_args) 5 * 50)\<rfloor>"
    by (simp add: no_run_args_def number_or_def)
  from runGroundSimulation_returns[OF this, of plain_text half_draws 0 0 "''session''" empty_store]
  obtain res st1 k1 where
    g: "runGroundSimulation plain_text half_draws 0 0 ''session'' no_run_args empty_store
          = Some (res, st1, k1)"
    by blast
  then have r: "runSimulation plain_text half_draws 0 0 ''session'' no_run_args empty_store
                  = Some (Inl res, st1, k1)"
    by (simp add: runSimulation_def no_run_args_def is_drone_type_None)
  note t = run_status_and_rollover
             [where fmt = plain_text and rnd = half_draws and k = 0 and now = 0
                and sid = "''session''" and args = no_run_args and st = empty_store
                and res = res and st' = st1 and k' = k1 and frames = tilted_frames and m = 1
                and physics = DEFAULT_PHYSICS and seed = 0]
  from t[THEN conjunct1, THEN mp, OF r] obtain session run where
    a: "sessions st1 ''session'' = Some session" "current_run session = Some run"
       "result_status res = status run"
       "status run = failed \<longleftrightarrow> (\<exists>e\<in>set (run_events run). severity e = Critical)"
    by blast
  have h: "10 \<le> length tilted_frames \<and> (1::nat) \<le> 1
           \<and> 1 * (length tilted_frames div 10) < length tilted_frames
           \<and> (\<bar>pitch (imu (tilted_frames ! (1 * (length tilted_frames div 10))))\<bar> > 30
                \<or> \<bar>roll (imu (tilted_frames ! (1 * (length tilted_frames div 10))))\<bar> > 25)"
    by (simp add: tilted_frames_def example_frame_def)
  have ts: "timestamp (tilted_frames ! (1 * (length tilted_frames div 10))) = 20"
    by (simp add: tilted_frames_def example_frame_def)
  from t[THEN conjunct2, THEN conjunct2, THEN mp, OF h] obtain all k2 n where
    b: "generateSimulationEvents plain_text half_draws 0 tilted_frames DEFAULT_PHYSICS
          = Some (take 10 all, k2)"
       "n < 5 * 1" "ev_type (all ! n) = ''rollover''" "severity (all ! n) = Critical"
       "ev_timestamp (all ! n) = timestamp (tilted_frames ! (1 * (length tilted_frames div 10)))"
       "n < 10 \<longrightarrow> take 10 all ! n = all ! n \<and> shouldSimulationFail (take 10 all)"
    by blast
  from b(2) have n5: "n < 5" and n10: "n < 10" by simp_all
  from b(6) n10 have f: "shouldSimulationFail (take 10 all)" by simp
  from b(5) have e: "ev_timestamp (all ! n) = 20" by (simp only: ts)
  have p1: "\<exists>res st' k'.
      runSimulation plain_text half_draws 0 0 ''session'' no_run_args empty_store = Some (Inl res, st', k')
      \<and> (\<exists>session run. sessions st' ''session'' = Some session \<and> current_run session = Some run
            \<and> result_status res = status run
            \<and> (status run = failed \<longleftrightarrow> (\<exists>e\<in>set (run_events run). severity e = Critical)))"
    using r a by blast
  have p2: "\<exists>all k2 n.
         generateSimulationEvents plain_text half_draws 0 tilted_frames DEFAULT_PHYSICS
           = Some (take 10 all, k2)
         \<and> n < 5 \<and> ev_type (all ! n) = ''rollover'' \<and> severity (all ! n) = Critical
         \<and> ev_timestamp (all ! n) = 20 \<and> shouldSimulationFail (take 10 all)"
    using b(1) n5 b(3) b(4) e f by blast
  from h have p3: "10 \<le> length tilted_frames"
    and p4: "30 < \<bar>pitch (imu (tilted_frames ! (1 * (length tilted_frames div 10))))\<bar>"
    by (simp_all add: tilted_frames_def example_frame_def)
  from p1 p2 p3 p4 show ?thesis by (intro conjI)
qed

text \<open>
  C4 as stated fails. In \<open>crowded_frames\<close> the sampled frames 1 to 5 raise ten warnings,
  the sampled frame 6 has a pitch of 35 degrees, and its \<open>rollover\<close> event is the twelfth
  event: \<open>slice(0, 10)\<close> drops it and \<open>shouldSimulationFail\<close> is false of the result.
\<close>

theorem rollover_counterexample:
  "30 < \<bar>pitch (imu (crowded_frames ! 6))\<bar>
   \<and> map_option (shouldSimulationFail \<circ> fst)
       (generateSimulationEvents plain_text half_draws 0 crowded_frames DEFAULT_PHYSICS) = Some False
   \<and> map_option (map ev_type \<circ> fst)
       (generateSimulationEvents plain_text half_draws 0 crowded_frames DEFAULT_PHYSICS)
     = Some [''slip'', ''overheat'', ''slip'', ''overheat'', ''slip'', ''overheat'', ''slip'',
             ''overheat'', ''slip'', ''overheat'']"
  by (simp add: generateSimulationEvents_def sampling_loop.simps sample_frame_def ground_checks_def
        shouldInjectFailure_def shouldSimulationFail_def crowded_frames_def example_frame_def
        Math_random_def half_draws_def BASE_FAILURE_RATE_def Let_def)

section \<open>Stored runs and later configuration changes\<close>

lemma updateMotorParams_shared_map:
  assumes "sessions st1 sid = Some s" and "jointId \<noteq> []"
  shows "\<exists>s2. sessions (fst (snd (updateMotorParams rnd k now sid
                   \<lparr>arg_joint_id = Some jointId, arg_torque_limit = tq, arg_pid_p = pg,
                    arg_pid_i = ig, arg_pid_d = dg\<rparr> st1))) sid = Some s2
           \<and> current_run s2 = current_run s
           \<and> session_motors s2 = session_motors s
           \<and> map_option pid_p
                (motors_heap (fst (snd (updateMotorParams rnd k now sid
                   \<lparr>arg_joint_id = Some jointId, arg_torque_limit = tq, arg_pid_p = pg,
                    arg_pid_i = ig, arg_pid_d = dg\<rparr> st1))) (session_motors s) jointId)
              = Some pg"
  using assms
  by (simp add: updateMotorParams_def updateMotor_def getOrCreate_existing randomDelay_def
        Math_random_def Let_def spread_def)

lemma configurePhysics_fresh_object:
  assumes "sessions st1 sid = Some s" and "r < next_ref st1"
  shows "physics_heap (fst (snd (configurePhysics rnd k now sid cargs st1))) r = physics_heap st1 r
         \<and> (\<exists>s3. sessions (fst (snd (configurePhysics rnd k now sid cargs st1))) sid = Some s3
                \<and> current_run s3 = current_run s)"
  using assms
  by (simp add: configurePhysics_def updatePhysics_def getOrCreate_existing randomDelay_def
        Math_random_def Let_def split_beta)

lemma getOrCreate_empty:
  "session_motors (fst (getOrCreate now sid empty_store)) = 0"
  "session_physics (fst (getOrCreate now sid empty_store)) = 1"
  "physics_heap (snd (getOrCreate now sid empty_store)) 1 = DEFAULT_PHYSICS"
  "next_ref (snd (getOrCreate now sid empty_store)) = 2"
  "motors_heap (snd (getOrCreate now sid empty_store)) 0 ''leg_1_coxa'' = Some (default_motor ''leg_1_coxa'')"
  by (simp_all add: getOrCreate_def createDefaultSession_def empty_store_def Let_def HEXAPOD_JOINTS_def)

lemma getLatestRun_current:
  "sessions st sid = Some s \<Longrightarrow> current_run s = Some run \<Longrightarrow> fst (getLatestRun now sid st) = Some run"
  by (simp add: getLatestRun_def get_session_def Let_def)

text \<open>
  C3 fails on the code for \<open>motor_configs\<close>. After a run on a new session, the stored
  run's \<open>motor_configs\<close> is the session's live \<open>Map\<close>: \<open>update_motor_params\<close> with
  \<open>pid_p = 2\<close> changes the \<open>pid_p\<close> of \<open>leg_1_coxa\<close> in the stored run from 1 to 2. The
  stored \<open>physics_config\<close> is not changed by \<open>configure_physics\<close>, which replaces
  \<open>session.physics\<close> by a new object.
\<close>

theorem stored_run_shares_the_live_motor_map:
  "\<exists>res st1 k1 run.
     runSimulation plain_text half_draws 0 0 ''session'' no_run_args empty_store = Some (Inl res, st1, k1)
     \<and> fst (getLatestRun 0 ''session'' st1) = Some run
     \<and> map_option pid_p (motors_heap st1 (motor_configs run) ''leg_1_coxa'') = Some (Some 1)
     \<and> fst (getLatestRun 0 ''session''
              (fst (snd (updateMotorParams half_draws k1 0 ''session'' (pid_p_only 2) st1)))) = Some run
     \<and> map_option pid_p
          (motors_heap (fst (snd (updateMotorParams half_draws k1 0 ''session'' (pid_p_only 2) st1)))
             (motor_configs run) ''leg_1_coxa'') = Some (Some 2)
     \<and> physics_heap st1 (physics_config run) = DEFAULT_PHYSICS
     \<and> gravity (applied_config (fst (configurePhysics half_draws k1 0 ''session'' gravity_only st1))) = 5
     \<and> physics_heap (fst (snd (configurePhysics half_draws k1 0 ''session'' gravity_only st1)))
          (physics_config run) = DEFAULT_PHYSICS"
proof -
  have "to_double (5 * 50) = 250" using to_double_of_nat[of 250] by simp
  then have "nat \<lfloor>to_double (number_or (arg_duration_seconds no_run_args) 5 * 50)\<rfloor> = 0
         \<or> 10 \<le> nat \<lfloor>to_double (number_or (arg_duration_seconds no_run_args) 5 * 50)\<rfloor>"
    by (simp add: no_run_args_def number_or_def)
  from runGroundSimulation_returns[OF this, of plain_text half_draws 0 0 "''session''" empty_store]
  obtain res st1 k1 where
    g: "runGroundSimulation plain_text half_draws 0 0 ''session'' no_run_args empty_store = Some (res, st1, k1)"
    by blast
  then have r: "runSimulation plain_text half_draws 0 0 ''session'' no_run_args empty_store = Some (Inl res, st1, k1)"
    by (simp add: runSimulation_def no_run_args_def is_drone_type_None)
  from runGroundSimulation_stored_run[OF g] obtain session run where
    s: "sessions st1 ''session'' = Some session" "current_run session = Some run"
       "motor_configs run = 0" "physics_config run = 1" "session_motors session = 0"
       "motors_heap st1 = motors_heap (snd (getOrCreate 0 ''session'' empty_store))"
       "physics_heap st1 = physics_heap (snd (getOrCreate 0 ''session'' empty_store))"
       "next_ref st1 = 2"
    by (auto simp: getOrCreate_empty)
  let ?st2 = "fst (snd (updateMotorParams half_draws k1 0 ''session'' (pid_p_only 2) st1))"
  let ?st3 = "fst (snd (configurePhysics half_draws k1 0 ''session'' gravity_only st1))"
  have l1: "fst (getLatestRun 0 ''session'' st1) = Some run" using s(1,2) by (rule getLatestRun_current)
  have b1: "map_option pid_p (motors_heap st1 (motor_configs run) ''leg_1_coxa'') = Some (Some 1)"
    by (simp add: s getOrCreate_empty default_motor_def)
  from updateMotorParams_shared_map[OF s(1), of "''leg_1_coxa''" half_draws k1 0 None "Some 2" None None]
  obtain s2 where s2: "sessions ?st2 ''session'' = Some s2" "current_run s2 = Some run"
     "map_option pid_p (motors_heap ?st2 0 ''leg_1_coxa'') = Some (Some 2)"
    by (auto simp: pid_p_only_def s)
  have l2: "fst (getLatestRun 0 ''session'' ?st2) = Some run" using s2(1,2) by (rule getLatestRun_current)
  have b2: "map_option pid_p (motors_heap ?st2 (motor_configs run) ''leg_1_coxa'') = Some (Some 2)"
    using s2(3) by (simp add: s(3))
  have p1: "physics_heap st1 (physics_config run) = DEFAULT_PHYSICS"
    using getOrCreate_empty(3)[of 0 "''session''"] by (simp add: s)
  have "(1::nat) < next_ref st1" by (simp add: s)
  from configurePhysics_fresh_object[OF s(1) this, of half_draws k1 0 gravity_only]
  have p3: "physics_heap ?st3 (physics_config run) = DEFAULT_PHYSICS" using p1 by (simp add: s(4))
  have g5: "gravity (applied_config (fst (configurePhysics half_draws k1 0 ''session'' gravity_only st1))) = 5"
    by (simp add: configurePhysics_def updatePhysics_def randomDelay_def Math_random_def Let_def
          split_beta gravity_only_def)
  from r l1 b1 l2 b2 p1 g5 p3 show ?thesis by blast
qed

section \<open>Partial updates of the motor parameters\<close>

lemma updateMotorParams_entry:
  assumes "jointId \<noteq> []"
  shows "session_motor
           (fst (snd (updateMotorParams rnd k now sid
              \<lparr>arg_joint_id = Some jointId, arg_torque_limit = tq, arg_pid_p = pg, arg_pid_i = ig, arg_pid_d = dg\<rparr> st)))
           sid jointId
         = Some \<lparr>joint_id = jointId, torque_limit = tq, pid_p = pg, pid_i = ig, pid_d = dg,
                 max_velocity = (case session_motor (snd (getOrCreate now sid st)) sid jointId of
                                   None \<Rightarrow> Some 5 | Some e \<Rightarrow> max_velocity e)\<rparr>"
  using assms
  by (cases "sessions st sid")
     (simp_all add: updateMotorParams_def updateMotor_def getOrCreate_def createDefaultSession_def
        session_motor_def randomDelay_def Math_random_def spread_def default_motor_def Let_def
        split: option.splits)

text \<open>
  C5 fails on the code. \<open>leg_1_coxa\<close> of a new session has the default parameters,
  with \<open>torque_limit = 5\<close>. After two calls of \<open>update_motor_params\<close> that supply only
  \<open>pid_p\<close> (2, then 3), \<open>pid_p\<close> is 3, as the claim says, but \<open>torque_limit\<close>, \<open>pid_i\<close>
  and \<open>pid_d\<close> are \<open>undefined\<close>: the tool passes all four keys to \<open>updateMotor\<close>, and the
  spread copies the \<open>undefined\<close> values over the stored ones. Only \<open>max_velocity\<close>, which
  is not among the keys, keeps its value.
\<close>

theorem update_motor_params_drops_unsupplied_fields:
  "session_motor (snd (getOrCreate 0 ''session'' empty_store)) ''session'' ''leg_1_coxa''
     = Some (default_motor ''leg_1_coxa'')
   \<and> session_motor
       (fst (snd (updateMotorParams half_draws 1 0 ''session'' (pid_p_only 3)
          (fst (snd (updateMotorParams half_draws 0 0 ''session'' (pid_p_only 2)
             (snd (getOrCreate 0 ''session'' empty_store))))))))
       ''session'' ''leg_1_coxa''
     = Some \<lparr>joint_id = ''leg_1_coxa'', torque_limit = None, pid_p = Some 3, pid_i = None,
             pid_d = None, max_velocity = Some 5\<rparr>"
  by (simp add: updateMotorParams_def updateMotor_def getOrCreate_def createDefaultSession_def
        session_motor_def randomDelay_def Math_random_def spread_def default_motor_def Let_def
        pid_p_only_def empty_store_def HEXAPOD_JOINTS_def)

section \<open>The airspace coefficients of a drone flight\<close>


end
